theory Spec2Isabelle
  imports Complex_Main "HOL-Library.Word"
begin

unbundle bit_operations_syntax

section \<open>Python values and exceptions\<close>

text \<open>
  The values the handlers of \<^verbatim>\<open>webplayer.py\<close> compute with: what \<^verbatim>\<open>r.json()\<close>
  returns, what goes into a query-parameter dict and what \<^verbatim>\<open>jsonify\<close> is given.
  A \<^verbatim>\<open>str\<close> is a \<open>string\<close>, one \<open>char\<close> per code point (code points below 256);
  a \<^verbatim>\<open>dict\<close> is an association list in insertion order, looked up with \<open>map_of\<close>;
  a \<^verbatim>\<open>float\<close> is the rational it denotes (the handlers only test a number for zero).
\<close>

datatype pyval =
    PNone
  | PBool bool
  | PInt int
  | PFloat rat
  | PStr string
  | PList "pyval list"
  | PDict "(string \<times> pyval) list"

text \<open>
  Exceptions are values. \<open>HTTPException code description\<close> is what
  \<^verbatim>\<open>flask.abort(code, description)\<close> raises; \<open>RequestException\<close> stands for a transport
  failure raised by \<^verbatim>\<open>requests.get\<close>.
\<close>

datatype py_error =
    HTTPException nat string
  | ValueError
  | AttributeError
  | TypeError
  | RequestException

text \<open>Truth value testing: \<^verbatim>\<open>if v\<close>, \<^verbatim>\<open>not v\<close>, \<^verbatim>\<open>a or b\<close>.\<close>

fun truthy :: "pyval \<Rightarrow> bool" where
  "truthy PNone = False"
| "truthy (PBool b) = b"
| "truthy (PInt n) = (n \<noteq> 0)"
| "truthy (PFloat x) = (x \<noteq> 0)"
| "truthy (PStr s) = (s \<noteq> [])"
| "truthy (PList xs) = (xs \<noteq> [])"
| "truthy (PDict kvs) = (kvs \<noteq> [])"

definition py_or :: "pyval \<Rightarrow> pyval \<Rightarrow> pyval" where
  "py_or a b = (if truthy a then a else b)"

text \<open>\<^verbatim>\<open>x.get(k, d)\<close>: only a dict has the method; on anything else the attribute lookup raises.\<close>

fun py_get :: "pyval \<Rightarrow> string \<Rightarrow> pyval \<Rightarrow> py_error + pyval" where
  "py_get (PDict kvs) k d = Inr (case map_of kvs k of Some v \<Rightarrow> v | None \<Rightarrow> d)"
| "py_get PNone k d = Inl AttributeError"
| "py_get (PBool b) k d = Inl AttributeError"
| "py_get (PInt n) k d = Inl AttributeError"
| "py_get (PFloat x) k d = Inl AttributeError"
| "py_get (PStr s) k d = Inl AttributeError"
| "py_get (PList xs) k d = Inl AttributeError"

fun isinstance_dict :: "pyval \<Rightarrow> bool" where
  "isinstance_dict (PDict kvs) = True"
| "isinstance_dict PNone = False"
| "isinstance_dict (PBool b) = False"
| "isinstance_dict (PInt n) = False"
| "isinstance_dict (PFloat x) = False"
| "isinstance_dict (PStr s) = False"
| "isinstance_dict (PList xs) = False"

text \<open>\<^verbatim>\<open>for s in v\<close>: the items a loop over \<open>v\<close> visits, or the \<^verbatim>\<open>TypeError\<close> of a value
  that is not iterable. A string yields its characters, a dict its keys.\<close>

fun py_iter :: "pyval \<Rightarrow> py_error + pyval list" where
  "py_iter (PList xs) = Inr xs"
| "py_iter (PStr s) = Inr (map (\<lambda>c. PStr [c]) s)"
| "py_iter (PDict kvs) = Inr (map (\<lambda>k. PStr k) (remdups (map fst kvs)))"
| "py_iter PNone = Inl TypeError"
| "py_iter (PBool b) = Inl TypeError"
| "py_iter (PInt n) = Inl TypeError"
| "py_iter (PFloat x) = Inl TypeError"

text \<open>\<^verbatim>\<open>d | e\<close> on dicts: the keys of \<open>d\<close> keep their place, a key of \<open>e\<close> overwrites or is
  appended.\<close>

fun dict_put :: "(string \<times> pyval) list \<Rightarrow> string \<Rightarrow> pyval \<Rightarrow> (string \<times> pyval) list" where
  "dict_put [] k v = [(k, v)]"
| "dict_put ((k', v') # kvs) k v =
     (if k' = k then (k, v) # kvs else (k', v') # dict_put kvs k v)"

fun dict_or :: "(string \<times> pyval) list \<Rightarrow> (string \<times> pyval) list \<Rightarrow> (string \<times> pyval) list" where
  "dict_or d [] = d"
| "dict_or d ((k, v) # e) = dict_or (dict_put d k v) e"

section \<open>Library functions: MD5, hexadecimal text, integer parsing\<close>

text \<open>
  \<^verbatim>\<open>hashlib.md5\<close> is the MD5 message digest of RFC 1321: the message is padded to a
  multiple of 64 bytes and each block of sixteen little-endian 32-bit words goes through
  64 steps.
\<close>

definition md5_K :: "32 word list" where
  "md5_K =
    [0xd76aa478, 0xe8c7b756, 0x242070db, 0xc1bdceee, 0xf57c0faf, 0x4787c62a, 0xa8304613, 0xfd469501,
     0x698098d8, 0x8b44f7af, 0xffff5bb1, 0x895cd7be, 0x6b901122, 0xfd987193, 0xa679438e, 0x49b40821,
     0xf61e2562, 0xc040b340, 0x265e5a51, 0xe9b6c7aa, 0xd62f105d, 0x02441453, 0xd8a1e681, 0xe7d3fbc8,
     0x21e1cde6, 0xc33707d6, 0xf4d50d87, 0x455a14ed, 0xa9e3e905, 0xfcefa3f8, 0x676f02d9, 0x8d2a4c8a,
     0xfffa3942, 0x8771f681, 0x6d9d6122, 0xfde5380c, 0xa4beea44, 0x4bdecfa9, 0xf6bb4b60, 0xbebfbc70,
     0x289b7ec6, 0xeaa127fa, 0xd4ef3085, 0x04881d05, 0xd9d4d039, 0xe6db99e5, 0x1fa27cf8, 0xc4ac5665,
     0xf4292244, 0x432aff97, 0xab9423a7, 0xfc93a039, 0x655b59c3, 0x8f0ccc92, 0xffeff47d, 0x85845dd1,
     0x6fa87e4f, 0xfe2ce6e0, 0xa3014314, 0x4e0811a1, 0xf7537e82, 0xbd3af235, 0x2ad7d2bb, 0xeb86d391]"

definition md5_s :: "nat list" where
  "md5_s =
    [7, 12, 17, 22, 7, 12, 17, 22, 7, 12, 17, 22, 7, 12, 17, 22,
     5, 9, 14, 20, 5, 9, 14, 20, 5, 9, 14, 20, 5, 9, 14, 20,
     4, 11, 16, 23, 4, 11, 16, 23, 4, 11, 16, 23, 4, 11, 16, 23,
     6, 10, 15, 21, 6, 10, 15, 21, 6, 10, 15, 21, 6, 10, 15, 21]"

definition rotl :: "32 word \<Rightarrow> nat \<Rightarrow> 32 word" where
  "rotl x n = push_bit n x OR drop_bit (32 - n) x"

type_synonym md5_state = "32 word \<times> 32 word \<times> 32 word \<times> 32 word"

definition md5_step :: "32 word list \<Rightarrow> md5_state \<Rightarrow> nat \<Rightarrow> md5_state" where
  "md5_step M st i =
     (case st of (A, B, C, D) \<Rightarrow>
        let (F, g) =
              (if i < 16 then ((B AND C) OR (NOT B AND D), i)
               else if i < 32 then ((D AND B) OR (NOT D AND C), (5 * i + 1) mod 16)
               else if i < 48 then (B XOR C XOR D, (3 * i + 5) mod 16)
               else (C XOR (B OR NOT D), (7 * i) mod 16));
            F = F + A + md5_K ! i + M ! g
        in (D, B + rotl F (md5_s ! i), B, C))"

definition le_word :: "8 word list \<Rightarrow> 32 word" where
  "le_word bs = foldr (\<lambda>b acc. push_bit 8 acc OR ucast b) bs 0"

fun chunks_of :: "nat \<Rightarrow> 'a list \<Rightarrow> 'a list list" where
  "chunks_of n xs = (if n = 0 \<or> xs = [] then [] else take n xs # chunks_of n (drop n xs))"

declare chunks_of.simps [simp del]

definition md5_block :: "md5_state \<Rightarrow> 8 word list \<Rightarrow> md5_state" where
  "md5_block st blk =
     (let M = map le_word (chunks_of 4 blk) in
      case st of (a0, b0, c0, d0) \<Rightarrow>
      case foldl (md5_step M) st [0..<64] of (A, B, C, D) \<Rightarrow>
        (a0 + A, b0 + B, c0 + C, d0 + D))"

definition md5_pad :: "8 word list \<Rightarrow> 8 word list" where
  "md5_pad m =
     (let n = length m;
          z = (55 + 64 - n mod 64) mod 64;
          bits = (of_nat (8 * n) :: 64 word)
      in m @ [0x80] @ replicate z 0 @ map (\<lambda>i. ucast (drop_bit (8 * i) bits)) [0..<8])"

definition word_bytes :: "32 word \<Rightarrow> 8 word list" where
  "word_bytes x = map (\<lambda>i. ucast (drop_bit (8 * i) x)) [0..<4]"

definition md5_digest :: "8 word list \<Rightarrow> 8 word list" where
  "md5_digest m =
     (case foldl md5_block (0x67452301, 0xefcdab89, 0x98badcfe, 0x10325476)
             (chunks_of 64 (md5_pad m)) of
        (a, b, c, d) \<Rightarrow> word_bytes a @ word_bytes b @ word_bytes c @ word_bytes d)"

text \<open>Lower-case hexadecimal text of bytes, as \<^verbatim>\<open>hexdigest()\<close> and \<^verbatim>\<open>bytes.hex()\<close> give it.\<close>

definition hex_digit :: "nat \<Rightarrow> char" where
  "hex_digit n = ''0123456789abcdef'' ! n"

definition byte_hex :: "8 word \<Rightarrow> string" where
  "byte_hex b = [hex_digit (unat b div 16), hex_digit (unat b mod 16)]"

definition hexlify :: "8 word list \<Rightarrow> string" where
  "hexlify bs = concat (map byte_hex bs)"

text \<open>\<^verbatim>\<open>s.encode("utf-8")\<close>: one byte for a code point below 128, two for the others
  below 256.\<close>

definition encode_utf8 :: "string \<Rightarrow> 8 word list" where
  "encode_utf8 s =
     concat (map (\<lambda>c. let n = (of_char c :: nat) in
                       if n < 128 then [of_nat n]
                       else [of_nat (192 + n div 64), of_nat (128 + n mod 64)]) s)"

text \<open>\<^verbatim>\<open>str.strip()\<close> removes leading and trailing whitespace: of the code points below 256,
  these twelve.\<close>

definition py_isspace :: "char \<Rightarrow> bool" where
  "py_isspace c = ((of_char c :: nat) \<in> set [9, 10, 11, 12, 13, 28, 29, 30, 31, 32, 133, 160])"

definition py_strip :: "string \<Rightarrow> string" where
  "py_strip s = rev (dropWhile py_isspace (rev (dropWhile py_isspace s)))"

text \<open>
  The builtin \<^verbatim>\<open>int\<close> on a \<^verbatim>\<open>str\<close>, base ten: whitespace around, one optional sign, then
  decimal digits, where one underscore may stand between two digits. \<open>None\<close> is the
  \<^verbatim>\<open>ValueError\<close>. The whitespace \<^verbatim>\<open>int\<close> skips is narrower than that of \<^verbatim>\<open>str.strip()\<close>:
  the separators 28 to 31 are not skipped, so a numeral next to one of them is refused.
  The interpreter refuses a numeral of more than \<^verbatim>\<open>sys.get_int_max_str_digits()\<close> digits
  when that limit is not 0 (the limit is checked above 640 digits only); the limit is the
  first argument.
\<close>

definition int_isspace :: "char \<Rightarrow> bool" where
  "int_isspace c = ((of_char c :: nat) \<in> set [9, 10, 11, 12, 13, 32, 133, 160])"

definition int_strip :: "string \<Rightarrow> string" where
  "int_strip s = rev (dropWhile int_isspace (rev (dropWhile int_isspace s)))"

definition digit_of :: "char \<Rightarrow> nat option" where
  "digit_of c =
     (let n = (of_char c :: nat) in if 48 \<le> n \<and> n \<le> 57 then Some (n - 48) else None)"

text \<open>\<open>scan_digits cs prev acc cnt\<close>: \<open>prev\<close> says that the character before was a digit,
  \<open>acc\<close> is the value and \<open>cnt\<close> the number of the digits read.\<close>

fun scan_digits :: "string \<Rightarrow> bool \<Rightarrow> nat \<Rightarrow> nat \<Rightarrow> (nat \<times> nat) option" where
  "scan_digits [] prev acc cnt = (if prev then Some (acc, cnt) else None)"
| "scan_digits (c # cs) prev acc cnt =
     (if c = CHR ''_'' then (if prev then scan_digits cs False acc cnt else None)
      else (case digit_of c of
              None \<Rightarrow> None
            | Some d \<Rightarrow> scan_digits cs True (10 * acc + d) (cnt + 1)))"

definition py_int :: "nat \<Rightarrow> string \<Rightarrow> int option" where
  "py_int max_str_digits s =
     (let t = int_strip s;
          (neg, ds) = (case t of
                         [] \<Rightarrow> (False, t)
                       | c # r \<Rightarrow> if c = CHR ''-'' then (True, r)
                                  else if c = CHR ''+'' then (False, r)
                                  else (False, t))
      in case scan_digits ds False 0 0 of
           None \<Rightarrow> None
         | Some (v, cnt) \<Rightarrow>
             if 640 < cnt \<and> 0 < max_str_digits \<and> max_str_digits < cnt then None
             else Some (if neg then - int v else int v))"

section \<open>Configuration\<close>

record config =
  NAVIDROME_URL :: string
  SUBSONIC_USER :: string
  SUBSONIC_PASSWORD :: string
  SUBSONIC_VERSION :: string
  SUBSONIC_CLIENT :: string

definition SUBSONIC_FORMAT :: string where
  "SUBSONIC_FORMAT = ''json''"

text \<open>\<^verbatim>\<open>os.environ.get(k) or d\<close>: an unset and an empty variable both give \<open>d\<close>.\<close>

definition environ_get_or :: "(string \<rightharpoonup> string) \<Rightarrow> string \<Rightarrow> string \<Rightarrow> string" where
  "environ_get_or environ k d =
     (case environ k of None \<Rightarrow> d | Some v \<Rightarrow> if v \<noteq> [] then v else d)"

text \<open>\<^verbatim>\<open>os.environ.get(k, d)\<close>.\<close>

definition environ_get :: "(string \<rightharpoonup> string) \<Rightarrow> string \<Rightarrow> string \<Rightarrow> string" where
  "environ_get environ k d = (case environ k of None \<Rightarrow> d | Some v \<Rightarrow> v)"

definition load_config :: "(string \<rightharpoonup> string) \<Rightarrow> config" where
  "load_config environ =
     \<lparr> NAVIDROME_URL =
         environ_get_or environ ''NAVIDROME_URL''
           (environ_get_or environ ''NAVIDROME_BASE_URL'' ''http://127.0.0.1:4533''),
       SUBSONIC_USER =
         environ_get_or environ ''SUBSONIC_USER'' (environ_get environ ''NAVIDROME_USER'' ''''),
       SUBSONIC_PASSWORD =
         environ_get_or environ ''SUBSONIC_PASSWORD''
           (environ_get_or environ ''NAVIDROME_PASS''
              (environ_get environ ''NAVIDROME_PASSWORD'' '''')),
       SUBSONIC_VERSION = environ_get environ ''SUBSONIC_VERSION'' ''1.16.1'',
       SUBSONIC_CLIENT = environ_get environ ''SUBSONIC_CLIENT'' ''homarr-webplayer'' \<rparr>"

section \<open>The process and what it talks to\<close>

text \<open>A request the process sends upstream with \<^verbatim>\<open>requests.get(url, params=, headers=, stream=)\<close>.\<close>

record upstream_request =
  url :: string
  params :: "(string \<times> pyval) list"
  sent_headers :: "(string \<times> string) list"
  stream :: bool

text \<open>
  What comes back: the status code, the headers, what \<^verbatim>\<open>r.json()\<close> gives (\<open>None\<close> when it
  raises because the body is not JSON) and the chunks \<^verbatim>\<open>iter_content\<close> yields.
\<close>

record upstream_response =
  status_code :: nat
  up_headers :: "(string \<times> string) list"
  json_body :: "pyval option"
  iter_content :: "string list"

text \<open>
  What the process runs in: its configuration, the interpreter's limit on the digits of an
  integer numeral (\<^verbatim>\<open>sys.get_int_max_str_digits()\<close>, 0 for none) and the upstream server
  behind \<^verbatim>\<open>requests.get\<close>, which answers a request or fails with a transport error.
\<close>

record env =
  cfg :: config
  int_max_str_digits :: nat
  network :: "upstream_request \<Rightarrow> py_error + upstream_response"

text \<open>
  The state a handler changes: the operating system's random bytes (\<open>entropy\<close>, read at
  \<open>cursor\<close>) and the log of the requests sent upstream so far.
\<close>

record world =
  entropy :: "nat \<Rightarrow> 8 word"
  cursor :: nat
  sent :: "upstream_request list"

section \<open>Auth token builder\<close>

definition md5_hex :: "string \<Rightarrow> string" where
  "md5_hex s = hexlify (md5_digest (encode_utf8 s))"

text \<open>\<^verbatim>\<open>secrets.token_bytes(n)\<close> reads the next \<open>n\<close> random bytes.\<close>

definition token_bytes :: "nat \<Rightarrow> world \<Rightarrow> 8 word list \<times> world" where
  "token_bytes n w =
     (map (entropy w) [cursor w ..< cursor w + n], w\<lparr>cursor := cursor w + n\<rparr>)"

text \<open>\<^verbatim>\<open>secrets.token_hex(n)\<close> is the hexadecimal text of \<^verbatim>\<open>token_bytes(n)\<close>.\<close>

definition token_hex :: "nat \<Rightarrow> world \<Rightarrow> string \<times> world" where
  "token_hex n w =
     (case token_bytes n w of (bs, w') \<Rightarrow> (hexlify bs, w'))"

definition subsonic_auth :: "env \<Rightarrow> world \<Rightarrow> (py_error + (string \<times> pyval) list) \<times> world" where
  "subsonic_auth E w =
     (if SUBSONIC_USER (cfg E) = [] \<or> SUBSONIC_PASSWORD (cfg E) = [] then
        (Inl (HTTPException 500 ''SUBSONIC_USER and SUBSONIC_PASSWORD env vars must be set''), w)
      else
        (case token_hex 8 w of
           (salt, w') \<Rightarrow>
             let token = md5_hex (SUBSONIC_PASSWORD (cfg E) @ salt) in
             (Inr [(''u'', PStr (SUBSONIC_USER (cfg E))),
                   (''t'', PStr token),
                   (''s'', PStr salt),
                   (''v'', PStr (SUBSONIC_VERSION (cfg E))),
                   (''c'', PStr (SUBSONIC_CLIENT (cfg E))),
                   (''f'', PStr SUBSONIC_FORMAT)], w')))"

section \<open>Headers\<close>

text \<open>\<^verbatim>\<open>str.lower()\<close>, by which \<^verbatim>\<open>requests\<close> and \<^verbatim>\<open>werkzeug\<close> compare header names.\<close>

definition py_lower_char :: "char \<Rightarrow> char" where
  "py_lower_char c =
     (let n = (of_char c :: nat) in
      if (65 \<le> n \<and> n \<le> 90) \<or> (192 \<le> n \<and> n \<le> 222 \<and> n \<noteq> 215)
      then char_of (n + 32) else c)"

definition py_lower :: "string \<Rightarrow> string" where
  "py_lower s = map py_lower_char s"

text \<open>\<^verbatim>\<open>headers.get(k)\<close>: the first value under a name equal to \<open>k\<close> up to case.\<close>

fun hdr_get :: "(string \<times> string) list \<Rightarrow> string \<Rightarrow> string option" where
  "hdr_get [] k = None"
| "hdr_get ((k', v') # hs) k =
     (if py_lower k' = py_lower k then Some v' else hdr_get hs k)"

text \<open>\<^verbatim>\<open>headers[k] = v\<close> on a \<^verbatim>\<open>werkzeug\<close> header list: the first entry of that name is
  replaced and any later one removed; a new name is appended.\<close>

fun hdr_set :: "(string \<times> string) list \<Rightarrow> string \<Rightarrow> string \<Rightarrow> (string \<times> string) list" where
  "hdr_set [] k v = [(k, v)]"
| "hdr_set ((k', v') # hs) k v =
     (if py_lower k' = py_lower k
      then (k, v) # filter (\<lambda>kv. py_lower (fst kv) \<noteq> py_lower k) hs
      else (k', v') # hdr_set hs k v)"

text \<open>\<^verbatim>\<open>headers.setdefault(k, v)\<close>: sets the header only when none of that name is there.\<close>

definition hdr_setdefault :: "(string \<times> string) list \<Rightarrow> string \<Rightarrow> string \<Rightarrow> (string \<times> string) list" where
  "hdr_setdefault hs k v = (case hdr_get hs k of Some u \<Rightarrow> hs | None \<Rightarrow> hdr_set hs k v)"

section \<open>Requests and responses of the service\<close>

record request =
  args :: "(string \<times> string) list"
  req_headers :: "(string \<times> string) list"

datatype body = JsonBody pyval | StreamBody "string list"

record response =
  status :: nat
  resp_headers :: "(string \<times> string) list"
  resp_body :: body

text \<open>
  \<^verbatim>\<open>Response(body, status=code)\<close> of Flask, given neither \<^verbatim>\<open>mimetype\<close> nor
  \<^verbatim>\<open>content_type\<close>: the constructor puts the class's default media type into the headers.
\<close>

definition Response :: "body \<Rightarrow> nat \<Rightarrow> response" where
  "Response b code =
     \<lparr> status = code,
       resp_headers = [(''Content-Type'', ''text/html; charset=utf-8'')],
       resp_body = b \<rparr>"

text \<open>\<^verbatim>\<open>jsonify(k1=v1, ...)\<close>, and a view returning \<^verbatim>\<open>(response, code)\<close>.\<close>

definition jsonify :: "(string \<times> pyval) list \<Rightarrow> response" where
  "jsonify kvs =
     \<lparr> status = 200,
       resp_headers = [(''Content-Type'', ''application/json'')],
       resp_body = JsonBody (PDict kvs) \<rparr>"

definition with_status :: "response \<Rightarrow> nat \<Rightarrow> response" where
  "with_status r code = r\<lparr>status := code\<rparr>"

text \<open>The status the client sees: Flask turns an \<^verbatim>\<open>abort\<close> into its code and any other
  exception that leaves a view into 500.\<close>

fun http_status :: "py_error + response \<Rightarrow> nat" where
  "http_status (Inr r) = status r"
| "http_status (Inl (HTTPException code msg)) = code"
| "http_status (Inl ValueError) = 500"
| "http_status (Inl AttributeError) = 500"
| "http_status (Inl TypeError) = 500"
| "http_status (Inl RequestException) = 500"

text \<open>\<^verbatim>\<open>requests.get\<close>: the request goes out (and into the log), the answer or the transport
  error comes back.\<close>

definition requests_get :: "env \<Rightarrow> upstream_request \<Rightarrow> world \<Rightarrow> (py_error + upstream_response) \<times> world" where
  "requests_get E rq w = (network E rq, w\<lparr>sent := sent w @ [rq]\<rparr>)"

definition bind_err :: "'e + 'a \<Rightarrow> ('a \<Rightarrow> 'e + 'b) \<Rightarrow> 'e + 'b" where
  "bind_err m f = (case m of Inl e \<Rightarrow> Inl e | Inr x \<Rightarrow> f x)"

section \<open>Media proxies\<close>

text \<open>The generator \<^verbatim>\<open>gen\<close> of both proxies: the chunks that are not empty.\<close>

definition gen :: "upstream_response \<Rightarrow> string list" where
  "gen upstream = filter (\<lambda>chunk. chunk \<noteq> []) (iter_content upstream)"

text \<open>The loop \<^verbatim>\<open>for h in [...]: v = upstream.headers.get(h); if v: resp.headers[h] = v\<close>.\<close>

fun copy_headers :: "string list \<Rightarrow> (string \<times> string) list \<Rightarrow> (string \<times> string) list \<Rightarrow> (string \<times> string) list" where
  "copy_headers [] up hs = hs"
| "copy_headers (h # rest) up hs =
     copy_headers rest up
       (case hdr_get up h of
          None \<Rightarrow> hs
        | Some v \<Rightarrow> if v \<noteq> [] then hdr_set hs h v else hs)"

definition cover_passthrough :: "string list" where
  "cover_passthrough =
     [''Content-Type'', ''Content-Length'', ''Cache-Control'', ''ETag'', ''Last-Modified'',
      ''Accept-Ranges'']"

definition api_cover :: "env \<Rightarrow> string \<Rightarrow> world \<Rightarrow> (py_error + response) \<times> world" where
  "api_cover E cover_id w =
     (case subsonic_auth E w of
        (Inl e, w1) \<Rightarrow> (Inl e, w1)
      | (Inr auth, w1) \<Rightarrow>
          (case requests_get E
                  \<lparr> url = NAVIDROME_URL (cfg E) @ ''/rest/getCoverArt'',
                    params = dict_or auth [(''id'', PStr cover_id)],
                    sent_headers = [],
                    stream = True \<rparr> w1 of
             (Inl e, w2) \<Rightarrow> (Inl e, w2)
           | (Inr upstream, w2) \<Rightarrow>
               let resp = Response (StreamBody (gen upstream)) (status_code upstream);
                   hs = copy_headers cover_passthrough (up_headers upstream) (resp_headers resp);
                   hs = hdr_setdefault hs ''Content-Type'' ''image/jpeg''
               in (Inr (resp\<lparr>resp_headers := hs\<rparr>), w2)))"

definition passthrough :: "string list" where
  "passthrough =
     [''Content-Type'', ''Content-Length'', ''Accept-Ranges'', ''Content-Range'',
      ''Cache-Control'', ''ETag'', ''Last-Modified'', ''Content-Disposition'']"

definition api_stream :: "env \<Rightarrow> string \<Rightarrow> request \<Rightarrow> world \<Rightarrow> (py_error + response) \<times> world" where
  "api_stream E song_id req w =
     (case subsonic_auth E w of
        (Inl e, w1) \<Rightarrow> (Inl e, w1)
      | (Inr auth, w1) \<Rightarrow>
          let headers = (case hdr_get (req_headers req) ''Range'' of
                           None \<Rightarrow> []
                         | Some rng \<Rightarrow> if rng \<noteq> [] then [(''Range'', rng)] else [])
          in
          (case requests_get E
                  \<lparr> url = NAVIDROME_URL (cfg E) @ ''/rest/download'',
                    params = dict_or auth [(''id'', PStr song_id)],
                    sent_headers = headers,
                    stream = True \<rparr> w1 of
             (Inl e, w2) \<Rightarrow> (Inl e, w2)
           | (Inr upstream, w2) \<Rightarrow>
               let resp = Response (StreamBody (gen upstream)) (status_code upstream);
                   hs = copy_headers passthrough (up_headers upstream) (resp_headers resp);
                   hs = hdr_setdefault hs ''Accept-Ranges'' ''bytes'';
                   hs = hdr_setdefault hs ''Content-Type'' ''audio/mpeg''
               in (Inr (resp\<lparr>resp_headers := hs\<rparr>), w2)))"

section \<open>Query handlers\<close>

text \<open>The dict literal both loops append: \<^verbatim>\<open>{"id": s.get("id"), "title": s.get("title",
  "Unknown"), "artist": s.get("artist", "Unknown"), "coverArt": s.get("coverArt") or
  s.get("id")}\<close>.\<close>

definition song_entry :: "pyval \<Rightarrow> py_error + pyval" where
  "song_entry s =
     bind_err (py_get s ''id'' PNone) (\<lambda>i.
     bind_err (py_get s ''title'' (PStr ''Unknown'')) (\<lambda>t.
     bind_err (py_get s ''artist'' (PStr ''Unknown'')) (\<lambda>a.
     bind_err (py_get s ''coverArt'' PNone) (\<lambda>c.
     bind_err (if truthy c then Inr c else py_get s ''id'' PNone) (\<lambda>c'.
     Inr (PDict [(''id'', i), (''title'', t), (''artist'', a), (''coverArt'', c')]))))))"

text \<open>The loop of both handlers, \<^verbatim>\<open>for s in songs: if not s: continue; payload.append({...})\<close>,
  with the list built so far as accumulator.\<close>

fun payload_loop :: "pyval list \<Rightarrow> pyval list \<Rightarrow> py_error + pyval list" where
  "payload_loop [] payload = Inr payload"
| "payload_loop (s # songs) payload =
     (if \<not> truthy s then payload_loop songs payload
      else (case song_entry s of
              Inl e \<Rightarrow> Inl e
            | Inr d \<Rightarrow> payload_loop songs (payload @ [d])))"

text \<open>From \<^verbatim>\<open>if isinstance(songs, dict): songs = [songs]\<close> to the end of the loop.\<close>

definition build_payload :: "pyval \<Rightarrow> py_error + pyval list" where
  "build_payload songs =
     (let songs = (if isinstance_dict songs then PList [songs] else songs) in
      bind_err (py_iter songs) (\<lambda>items. payload_loop items []))"

text \<open>\<^verbatim>\<open>r.json().get("subsonic-response", {})\<close>, the expression inside \<^verbatim>\<open>try\<close>.\<close>

definition envelope :: "upstream_response \<Rightarrow> py_error + pyval" where
  "envelope r =
     (case json_body r of
        None \<Rightarrow> Inl ValueError
      | Some doc \<Rightarrow> py_get doc ''subsonic-response'' (PDict []))"

definition api_random_list :: "env \<Rightarrow> request \<Rightarrow> world \<Rightarrow> (py_error + response) \<times> world" where
  "api_random_list E req w =
     (let size = (case map_of (args req) ''size'' of
                    None \<Rightarrow> 30
                  | Some a \<Rightarrow> (case py_int (int_max_str_digits E) a of Some n \<Rightarrow> n | None \<Rightarrow> 30))
      in
      case subsonic_auth E w of
        (Inl e, w1) \<Rightarrow> (Inl e, w1)
      | (Inr auth, w1) \<Rightarrow>
          (case requests_get E
                  \<lparr> url = NAVIDROME_URL (cfg E) @ ''/rest/getRandomSongs'',
                    params = dict_or auth [(''size'', PInt size)],
                    sent_headers = [],
                    stream = False \<rparr> w1 of
             (Inl e, w2) \<Rightarrow> (Inl e, w2)
           | (Inr r, w2) \<Rightarrow>
               (case envelope r of
                  Inl e \<Rightarrow>
                    (Inr (with_status
                            (jsonify [(''success'', PBool False),
                                      (''error'', PStr ''Upstream invalid JSON'')]) 502), w2)
                | Inr js \<Rightarrow>
                    (bind_err (py_get js ''randomSongs'' (PDict [])) (\<lambda>rs.
                     bind_err (py_get rs ''song'' (PList [])) (\<lambda>v.
                     bind_err (build_payload (py_or v (PList []))) (\<lambda>payload.
                     Inr (jsonify [(''success'', PBool True), (''songs'', PList payload)])))),
                     w2))))"

definition api_search :: "env \<Rightarrow> request \<Rightarrow> world \<Rightarrow> (py_error + response) \<times> world" where
  "api_search E req w =
     (let q = py_strip (case map_of (args req) ''query'' of
                          None \<Rightarrow> []
                        | Some a \<Rightarrow> if a \<noteq> [] then a else [])
      in
      if q = [] then
        (Inr (with_status
                (jsonify [(''success'', PBool False), (''error'', PStr ''No query'')]) 400), w)
      else
        case subsonic_auth E w of
          (Inl e, w1) \<Rightarrow> (Inl e, w1)
        | (Inr auth, w1) \<Rightarrow>
            (case (case map_of (args req) ''songCount'' of
                     None \<Rightarrow> Inr 25
                   | Some a \<Rightarrow> (case py_int (int_max_str_digits E) a of
                                  Some n \<Rightarrow> Inr n
                                | None \<Rightarrow> Inl ValueError)) of
               Inl e \<Rightarrow> (Inl e, w1)
             | Inr songCount \<Rightarrow>
                 (case requests_get E
                         \<lparr> url = NAVIDROME_URL (cfg E) @ ''/rest/search3'',
                           params = dict_or auth
                                      [(''query'', PStr q),
                                       (''songCount'', PInt songCount),
                                       (''albumCount'', PInt 0),
                                       (''artistCount'', PInt 0)],
                           sent_headers = [],
                           stream = False \<rparr> w1 of
                    (Inl e, w2) \<Rightarrow> (Inl e, w2)
                  | (Inr r, w2) \<Rightarrow>
                      (case envelope r of
                         Inl e \<Rightarrow>
                           (Inr (with_status
                                   (jsonify [(''success'', PBool False),
                                             (''error'', PStr ''Upstream invalid JSON'')]) 502), w2)
                       | Inr js \<Rightarrow>
                           (bind_err (py_get js ''searchResult3'' (PDict [])) (\<lambda>res0.
                            bind_err (py_get (py_or res0 (PDict [])) ''song'' (PList [])) (\<lambda>v.
                            bind_err (build_payload (py_or v (PList []))) (\<lambda>results.
                            Inr (jsonify [(''success'', PBool True),
                                          (''results'', PList results)])))),
                            w2)))))"

section \<open>The song summary of the specification\<close>

text \<open>
  The projection the specification describes, on the association list of one song object:
  \<^verbatim>\<open>{id, title (default "Unknown"), artist (default "Unknown"), coverArt (falls back to
  id)}\<close>. An absent \<^verbatim>\<open>id\<close> is \<^verbatim>\<open>None\<close>; the fallback of \<^verbatim>\<open>coverArt\<close> also applies to a value
  that tests false.
\<close>

definition song_summary :: "(string \<times> pyval) list \<Rightarrow> pyval" where
  "song_summary kvs =
     (let ident = (case map_of kvs ''id'' of Some v \<Rightarrow> v | None \<Rightarrow> PNone) in
      PDict [(''id'', ident),
             (''title'', case map_of kvs ''title'' of Some v \<Rightarrow> v | None \<Rightarrow> PStr ''Unknown''),
             (''artist'', case map_of kvs ''artist'' of Some v \<Rightarrow> v | None \<Rightarrow> PStr ''Unknown''),
             (''coverArt'', case map_of kvs ''coverArt'' of
                              None \<Rightarrow> ident
                            | Some c \<Rightarrow> if truthy c then c else ident)])"

text \<open>List-or-object normalisation: one object stands for the list holding it. Any other
  kind of value is not a song list.\<close>

fun normalize :: "pyval \<Rightarrow> pyval list option" where
  "normalize (PDict kvs) = Some [PDict kvs]"
| "normalize (PList xs) = Some xs"
| "normalize PNone = None"
| "normalize (PBool b) = None"
| "normalize (PInt n) = None"
| "normalize (PFloat x) = None"
| "normalize (PStr s) = None"

section \<open>A deployment to compute with\<close>

definition example_environ :: "string \<rightharpoonup> string" where
  "example_environ = [''SUBSONIC_USER'' \<mapsto> ''alice'', ''NAVIDROME_PASS'' \<mapsto> ''hunter2'']"

definition example_world :: world where
  "example_world = \<lparr> entropy = (\<lambda>i. of_nat (17 * i + 3)), cursor = 0, sent = [] \<rparr>"

definition cover_reply :: upstream_response where
  "cover_reply =
     \<lparr> status_code = 404,
       up_headers = [(''content-type'', ''image/png''), (''ETag'', ''W/1''), (''Server'', ''nd'')],
       json_body = None,
       iter_content = [''ab'', '''', ''c''] \<rparr>"

definition stream_reply :: upstream_response where
  "stream_reply =
     \<lparr> status_code = 206,
       up_headers = [(''Content-Type'', ''audio/flac''),
                     (''content-range'', ''bytes 100-102/1000''),
                     (''Content-Length'', ''3'')],
       json_body = None,
       iter_content = [''xyz''] \<rparr>"

definition random_reply :: upstream_response where
  "random_reply =
     \<lparr> status_code = 200,
       up_headers = [(''Content-Type'', ''application/json'')],
       json_body =
         Some (PDict [(''subsonic-response'',
                 PDict [(''status'', PStr ''ok''),
                        (''randomSongs'',
                         PDict [(''song'',
                           PList [PDict [(''id'', PStr ''s1''), (''title'', PStr ''Blue''),
                                         (''artist'', PStr ''Joni''), (''coverArt'', PStr ''al-1'')],
                                  PNone,
                                  PDict [],
                                  PDict [(''id'', PStr ''s2'')]])])])]),
       iter_content = [] \<rparr>"

definition search_reply :: upstream_response where
  "search_reply =
     \<lparr> status_code = 200,
       up_headers = [(''Content-Type'', ''application/json'')],
       json_body =
         Some (PDict [(''subsonic-response'',
                 PDict [(''status'', PStr ''ok''),
                        (''searchResult3'',
                         PDict [(''song'',
                           PDict [(''id'', PStr ''s7''), (''title'', PStr ''Hejira''),
                                  (''coverArt'', PStr '''')])])])]),
       iter_content = [] \<rparr>"

definition example_network :: "upstream_request \<Rightarrow> py_error + upstream_response" where
  "example_network rq =
     (if url rq = ''http://127.0.0.1:4533/rest/getCoverArt'' then Inr cover_reply
      else if url rq = ''http://127.0.0.1:4533/rest/download'' then Inr stream_reply
      else if url rq = ''http://127.0.0.1:4533/rest/getRandomSongs'' then Inr random_reply
      else if url rq = ''http://127.0.0.1:4533/rest/search3'' then Inr search_reply
      else Inl RequestException)"

definition example_env :: env where
  "example_env =
     \<lparr> cfg = load_config example_environ, int_max_str_digits = 4300, network = example_network \<rparr>"

text \<open>The same deployment started without credentials in its environment.\<close>

definition unset_env :: env where
  "unset_env =
     \<lparr> cfg = load_config Map.empty, int_max_str_digits = 4300, network = example_network \<rparr>"

text \<open>An upstream that fails: status 500 and a JSON body that is no Subsonic envelope.\<close>

definition failed_reply :: upstream_response where
  "failed_reply =
     \<lparr> status_code = 500,
       up_headers = [(''Content-Type'', ''application/json'')],
       json_body = Some (PDict [(''error'', PStr ''database is locked'')]),
       iter_content = [] \<rparr>"

definition failing_env :: env where
  "failing_env = example_env\<lparr> network := (\<lambda>rq. Inr failed_reply) \<rparr>"

text \<open>An upstream whose body is not JSON at all.\<close>

definition html_reply :: upstream_response where
  "html_reply =
     \<lparr> status_code = 200,
       up_headers = [(''Content-Type'', ''text/html'')],
       json_body = None,
       iter_content = [] \<rparr>"

definition html_env :: env where
  "html_env = example_env\<lparr> network := (\<lambda>rq. Inr html_reply) \<rparr>"

text \<open>An upstream that answers with an empty \<^verbatim>\<open>ETag\<close>, an empty \<^verbatim>\<open>Content-Range\<close> and no
  \<^verbatim>\<open>Content-Type\<close>.\<close>

definition bare_reply :: upstream_response where
  "bare_reply =
     \<lparr> status_code = 200,
       up_headers = [(''ETag'', ''''), (''Content-Range'', '''')],
       json_body = None,
       iter_content = [''ab''] \<rparr>"

definition bare_env :: env where
  "bare_env = example_env\<lparr> network := (\<lambda>rq. Inr bare_reply) \<rparr>"


text \<open>An upstream whose song list holds an object and, after it, a bare identifier.\<close>

definition odd_reply :: upstream_response where
  "odd_reply =
     \<lparr> status_code = 200,
       up_headers = [(''Content-Type'', ''application/json'')],
       json_body =
         Some (PDict [(''subsonic-response'',
                 PDict [(''status'', PStr ''ok''),
                        (''randomSongs'',
                         PDict [(''song'',
                           PList [PDict [(''id'', PStr ''s1'')], PStr ''s2''])])])]),
       iter_content = [] \<rparr>"

definition odd_env :: env where
  "odd_env = example_env\<lparr> network := (\<lambda>rq. Inr odd_reply) \<rparr>"

section \<open>Facts about the library functions\<close>

lemma hex_digit_inj: "m < 16 \<Longrightarrow> n < 16 \<Longrightarrow> hex_digit m = hex_digit n \<Longrightarrow> m = n"
proof -
  assume a: "m < 16" "n < 16" "hex_digit m = hex_digit n"
  have d: "distinct ''0123456789abcdef''" by simp
  have l: "length ''0123456789abcdef'' = 16" by simp
  from a show ?thesis unfolding hex_digit_def
    using d l nth_eq_iff_index_eq by metis
qed

lemma hex_digit_mem: "n < 16 \<Longrightarrow> hex_digit n \<in> set ''0123456789abcdef''"
  unfolding hex_digit_def by (rule nth_mem) simp

lemma unat_byte_lt: "unat (b :: 8 word) < 256"
  using unsigned_less [of b, where ?'a = nat] by simp

lemma byte_hex_inj: "byte_hex a = byte_hex b \<Longrightarrow> a = b"
proof -
  assume h: "byte_hex a = byte_hex b"
  have la: "unat a div 16 < 16" "unat a mod 16 < 16" using unat_byte_lt [of a] by auto
  have lb: "unat b div 16 < 16" "unat b mod 16 < 16" using unat_byte_lt [of b] by auto
  from h have "hex_digit (unat a div 16) = hex_digit (unat b div 16)"
    and "hex_digit (unat a mod 16) = hex_digit (unat b mod 16)"
    by (simp_all add: byte_hex_def)
  then have "unat a div 16 = unat b div 16" "unat a mod 16 = unat b mod 16"
    using la lb hex_digit_inj by blast+
  then have "unat a = unat b" by (metis div_mult_mod_eq)
  then show ?thesis by (simp add: word_unat_eq_iff)
qed

lemma length_byte_hex: "length (byte_hex b) = 2"
  by (simp add: byte_hex_def)

lemma hexlify_inj:
  "length bs = length cs \<Longrightarrow> hexlify bs = hexlify cs \<Longrightarrow> bs = cs"
  unfolding hexlify_def
proof (induction bs cs rule: list_induct2)
  case Nil
  then show ?case by simp
next
  case (Cons x xs y ys)
  from Cons.prems
  have "byte_hex x @ concat (map byte_hex xs) = byte_hex y @ concat (map byte_hex ys)"
    by simp
  then have "byte_hex x = byte_hex y \<and> concat (map byte_hex xs) = concat (map byte_hex ys)"
    by (simp add: length_byte_hex)
  then show ?case using Cons.IH byte_hex_inj by simp
qed

lemma hexlify_inj_on: "inj_on hexlify {bs. length bs = n}"
  by (rule inj_onI) (simp add: hexlify_inj)

lemma length_hexlify: "length (hexlify bs) = 2 * length bs"
  unfolding hexlify_def by (induction bs) (simp_all add: length_byte_hex)

lemma set_hexlify: "set (hexlify bs) \<subseteq> set ''0123456789abcdef''"
proof
  fix c
  assume "c \<in> set (hexlify bs)"
  then obtain b where "c \<in> set (byte_hex b)" by (auto simp: hexlify_def)
  then have "c = hex_digit (unat b div 16) \<or> c = hex_digit (unat b mod 16)"
    by (auto simp: byte_hex_def)
  moreover have "unat b div 16 < 16" "unat b mod 16 < 16" using unat_byte_lt [of b] by auto
  ultimately show "c \<in> set ''0123456789abcdef''" using hex_digit_mem by blast
qed

lemma token_hex_eq:
  "token_hex n w =
     (hexlify (map (entropy w) [cursor w ..< cursor w + n]), w\<lparr>cursor := cursor w + n\<rparr>)"
  by (simp add: token_hex_def token_bytes_def)

text \<open>Two test vectors of RFC 1321 for the digest.\<close>

lemma md5_hex_empty: "md5_hex '''' = ''d41d8cd98f00b204e9800998ecf8427e''"
  by code_simp

lemma md5_hex_abc: "md5_hex ''abc'' = ''900150983cd24fb0d6963f7d28e17f72''"
  by code_simp

section \<open>Facts about the example deployment\<close>

lemma example_cfg:
  "cfg example_env =
     \<lparr> NAVIDROME_URL = ''http://127.0.0.1:4533'', SUBSONIC_USER = ''alice'',
       SUBSONIC_PASSWORD = ''hunter2'', SUBSONIC_VERSION = ''1.16.1'',
       SUBSONIC_CLIENT = ''homarr-webplayer'' \<rparr>"
  by (simp add: example_env_def load_config_def example_environ_def environ_get_or_def
        environ_get_def)

lemma unset_cfg:
  "cfg unset_env =
     \<lparr> NAVIDROME_URL = ''http://127.0.0.1:4533'', SUBSONIC_USER = '''',
       SUBSONIC_PASSWORD = '''', SUBSONIC_VERSION = ''1.16.1'',
       SUBSONIC_CLIENT = ''homarr-webplayer'' \<rparr>"
  by (simp add: unset_env_def load_config_def environ_get_or_def environ_get_def)

lemma example_salt: "fst (token_hex 8 example_world) = ''031425364758697a''"
  by (simp add: example_world_def token_hex_def token_bytes_def hexlify_def byte_hex_def
        hex_digit_def upt_rec)


lemma example_token: "md5_hex ''hunter2031425364758697a'' = ''9890ab2a120c410bc0cde3f51f07f420''"
  by code_simp


section \<open>The auth token builder: output and fresh salts\<close>

lemma subsonic_auth_ok:
  assumes "SUBSONIC_USER (cfg E) \<noteq> []" and "SUBSONIC_PASSWORD (cfg E) \<noteq> []"
  shows "subsonic_auth E w =
           (Inr [(''u'', PStr (SUBSONIC_USER (cfg E))),
                 (''t'', PStr (md5_hex (SUBSONIC_PASSWORD (cfg E) @ fst (token_hex 8 w)))),
                 (''s'', PStr (fst (token_hex 8 w))),
                 (''v'', PStr (SUBSONIC_VERSION (cfg E))),
                 (''c'', PStr (SUBSONIC_CLIENT (cfg E))),
                 (''f'', PStr ''json'')],
            w\<lparr>cursor := cursor w + 8\<rparr>)"
  using assms by (simp add: subsonic_auth_def token_hex_eq SUBSONIC_FORMAT_def)

lemma subsonic_auth_missing:
  assumes "SUBSONIC_USER (cfg E) = [] \<or> SUBSONIC_PASSWORD (cfg E) = []"
  shows "subsonic_auth E w =
           (Inl (HTTPException 500 ''SUBSONIC_USER and SUBSONIC_PASSWORD env vars must be set''), w)"
  using assms by (auto simp add: subsonic_auth_def)

text \<open>
  Claim C4. With a non-empty configured user and password, the auth token builder returns
  exactly the mapping with the keys \<open>u, t, s, v, c, f\<close>: \<open>u\<close> the configured user,
  \<open>t\<close> the MD5 hex digest of password followed by salt, \<open>s\<close> the salt, \<open>v\<close> the protocol
  version, \<open>c\<close> the client name and \<open>f\<close> the fixed format \<open>json\<close>. The salt is the
  hexadecimal text of the next 8 random bytes, which the call consumes: 16 hexadecimal
  digits, and different bytes give a different salt.
\<close>

theorem subsonic_auth_output:
  assumes "SUBSONIC_USER (cfg E) \<noteq> []" and "SUBSONIC_PASSWORD (cfg E) \<noteq> []"
  shows "subsonic_auth E w =
           (Inr [(''u'', PStr (SUBSONIC_USER (cfg E))),
                 (''t'', PStr (md5_hex (SUBSONIC_PASSWORD (cfg E) @ fst (token_hex 8 w)))),
                 (''s'', PStr (fst (token_hex 8 w))),
                 (''v'', PStr (SUBSONIC_VERSION (cfg E))),
                 (''c'', PStr (SUBSONIC_CLIENT (cfg E))),
                 (''f'', PStr ''json'')],
            w\<lparr>cursor := cursor w + 8\<rparr>)
       \<and> fst (token_hex 8 w) = hexlify (map (entropy w) [cursor w ..< cursor w + 8])
       \<and> length (fst (token_hex 8 w)) = 16
       \<and> set (fst (token_hex 8 w)) \<subseteq> set ''0123456789abcdef''
       \<and> inj_on hexlify {bs. length bs = 8}"
proof (intro conjI)
  show "subsonic_auth E w =
           (Inr [(''u'', PStr (SUBSONIC_USER (cfg E))),
                 (''t'', PStr (md5_hex (SUBSONIC_PASSWORD (cfg E) @ fst (token_hex 8 w)))),
                 (''s'', PStr (fst (token_hex 8 w))),
                 (''v'', PStr (SUBSONIC_VERSION (cfg E))),
                 (''c'', PStr (SUBSONIC_CLIENT (cfg E))),
                 (''f'', PStr ''json'')],
            w\<lparr>cursor := cursor w + 8\<rparr>)"
    by (rule subsonic_auth_ok [OF assms])
  show "fst (token_hex 8 w) = hexlify (map (entropy w) [cursor w ..< cursor w + 8])"
    by (simp add: token_hex_eq)
  show "length (fst (token_hex 8 w)) = 16"
    by (simp add: token_hex_eq length_hexlify)
  show "set (fst (token_hex 8 w)) \<subseteq> set ''0123456789abcdef''"
    unfolding token_hex_eq fst_conv by (rule set_hexlify)
  show "inj_on hexlify {bs. length bs = 8}"
    by (rule hexlify_inj_on)
qed

theorem subsonic_auth_output_witness:
  "SUBSONIC_USER (cfg example_env) \<noteq> [] \<and> SUBSONIC_PASSWORD (cfg example_env) \<noteq> []
   \<and> subsonic_auth example_env example_world =
       (Inr [(''u'', PStr ''alice''),
             (''t'', PStr ''9890ab2a120c410bc0cde3f51f07f420''),
             (''s'', PStr ''031425364758697a''),
             (''v'', PStr ''1.16.1''),
             (''c'', PStr ''homarr-webplayer''),
             (''f'', PStr ''json'')],
        example_world\<lparr>cursor := 8\<rparr>)"
proof -
  have u: "SUBSONIC_USER (cfg example_env) \<noteq> []" by (simp add: example_cfg)
  have p: "SUBSONIC_PASSWORD (cfg example_env) \<noteq> []" by (simp add: example_cfg)
  have c: "cursor example_world = 0" by (simp add: example_world_def)
  show ?thesis
    using subsonic_auth_output [OF u p, of example_world]
    by (simp add: example_cfg example_salt example_token c)
qed




section \<open>Facts about headers\<close>

lemma hdr_get_cong: "py_lower h = py_lower k \<Longrightarrow> hdr_get hs h = hdr_get hs k"
  by (induction hs) auto

lemma hdr_get_filter:
  "hdr_get (filter (\<lambda>kv. py_lower (fst kv) \<noteq> py_lower k) hs) k' =
     (if py_lower k' = py_lower k then None else hdr_get hs k')"
  by (induction hs) auto

lemma hdr_get_hdr_set:
  "hdr_get (hdr_set hs k v) k' = (if py_lower k' = py_lower k then Some v else hdr_get hs k')"
  by (induction hs) (auto simp: hdr_get_filter)

lemma hdr_get_setdefault:
  "hdr_get (hdr_setdefault hs k v) k' =
     (if py_lower k' = py_lower k \<and> hdr_get hs k = None then Some v else hdr_get hs k')"
  by (simp add: hdr_setdefault_def hdr_get_hdr_set split: option.splits)

lemma hdr_get_copy_headers:
  "hdr_get (copy_headers names up hs) k =
     (if (\<exists>h \<in> set names. py_lower h = py_lower k)
         \<and> hdr_get up k \<noteq> None \<and> hdr_get up k \<noteq> Some []
      then hdr_get up k else hdr_get hs k)"
proof (induction names arbitrary: hs)
  case Nil
  then show ?case by simp
next
  case (Cons h names)
  show ?case
  proof (cases "py_lower h = py_lower k")
    case True
    then have "hdr_get up h = hdr_get up k" by (rule hdr_get_cong)
    with True show ?thesis
      by (auto simp: Cons.IH hdr_get_hdr_set split: option.splits)
  next
    case False
    then show ?thesis
      by (auto simp: Cons.IH hdr_get_hdr_set split: option.splits)
  qed
qed

text \<open>A header of the pass-through list that upstream sends with a value arrives.\<close>

lemma copied_header:
  assumes "h \<in> set names" and "hdr_get up h = Some v" and "v \<noteq> []"
  shows "hdr_get (copy_headers names up hs) h = Some v"
  using assms by (auto simp: hdr_get_copy_headers)

text \<open>The header list of a fresh \<^verbatim>\<open>Response\<close> already has a \<^verbatim>\<open>Content-Type\<close>, and copying
  headers keeps one there, so a later \<^verbatim>\<open>setdefault\<close> of that name changes nothing.\<close>

lemma content_type_present:
  "hdr_get (copy_headers names up [(''Content-Type'', ''text/html; charset=utf-8'')])
     ''Content-Type'' \<noteq> None"
  by (simp add: hdr_get_copy_headers)

lemma setdefault_content_type_noop:
  "hdr_setdefault (copy_headers names up [(''Content-Type'', ''text/html; charset=utf-8'')])
     ''Content-Type'' v =
   copy_headers names up [(''Content-Type'', ''text/html; charset=utf-8'')]"
  using content_type_present [of names up]
  by (auto simp: hdr_setdefault_def split: option.splits)

lemmas lower_eval = py_lower_def py_lower_char_def char_of_def bit_Suc_0_iff

section \<open>The media proxies: status and header pass-through\<close>

lemma api_cover_run:
  assumes "SUBSONIC_USER (cfg E) \<noteq> []" and "SUBSONIC_PASSWORD (cfg E) \<noteq> []"
  shows "api_cover E cover_id w =
     (case network E
             \<lparr> url = NAVIDROME_URL (cfg E) @ ''/rest/getCoverArt'',
               params = [(''u'', PStr (SUBSONIC_USER (cfg E))),
                 (''t'', PStr (md5_hex (SUBSONIC_PASSWORD (cfg E) @ fst (token_hex 8 w)))),
                 (''s'', PStr (fst (token_hex 8 w))),
                 (''v'', PStr (SUBSONIC_VERSION (cfg E))),
                 (''c'', PStr (SUBSONIC_CLIENT (cfg E))),
                 (''f'', PStr ''json''),
                 (''id'', PStr cover_id)],
               sent_headers = [],
               stream = True \<rparr> of
        Inl e \<Rightarrow> Inl e
      | Inr upstream \<Rightarrow>
          Inr \<lparr> status = status_code upstream,
                resp_headers =
                  copy_headers cover_passthrough (up_headers upstream)
                    [(''Content-Type'', ''text/html; charset=utf-8'')],
                resp_body = StreamBody (gen upstream) \<rparr>,
      w\<lparr> cursor := cursor w + 8,
         sent := sent w @
           [\<lparr> url = NAVIDROME_URL (cfg E) @ ''/rest/getCoverArt'',
               params = [(''u'', PStr (SUBSONIC_USER (cfg E))),
                 (''t'', PStr (md5_hex (SUBSONIC_PASSWORD (cfg E) @ fst (token_hex 8 w)))),
                 (''s'', PStr (fst (token_hex 8 w))),
                 (''v'', PStr (SUBSONIC_VERSION (cfg E))),
                 (''c'', PStr (SUBSONIC_CLIENT (cfg E))),
                 (''f'', PStr ''json''),
                 (''id'', PStr cover_id)],
               sent_headers = [],
               stream = True \<rparr>] \<rparr>)"
  by (simp add: api_cover_def subsonic_auth_ok [OF assms] requests_get_def Response_def
        setdefault_content_type_noop split: sum.splits)

lemma api_stream_run:
  assumes "SUBSONIC_USER (cfg E) \<noteq> []" and "SUBSONIC_PASSWORD (cfg E) \<noteq> []"
  shows "api_stream E song_id req w =
     (case network E
             \<lparr> url = NAVIDROME_URL (cfg E) @ ''/rest/download'',
               params = [(''u'', PStr (SUBSONIC_USER (cfg E))),
                 (''t'', PStr (md5_hex (SUBSONIC_PASSWORD (cfg E) @ fst (token_hex 8 w)))),
                 (''s'', PStr (fst (token_hex 8 w))),
                 (''v'', PStr (SUBSONIC_VERSION (cfg E))),
                 (''c'', PStr (SUBSONIC_CLIENT (cfg E))),
                 (''f'', PStr ''json''),
                 (''id'', PStr song_id)],
               sent_headers =
                 (case hdr_get (req_headers req) ''Range'' of
                    None \<Rightarrow> []
                  | Some rng \<Rightarrow> if rng \<noteq> [] then [(''Range'', rng)] else []),
               stream = True \<rparr> of
        Inl e \<Rightarrow> Inl e
      | Inr upstream \<Rightarrow>
          Inr \<lparr> status = status_code upstream,
                resp_headers =
                  hdr_setdefault
                    (hdr_setdefault
                       (copy_headers passthrough (up_headers upstream)
                          [(''Content-Type'', ''text/html; charset=utf-8'')])
                       ''Accept-Ranges'' ''bytes'')
                    ''Content-Type'' ''audio/mpeg'',
                resp_body = StreamBody (gen upstream) \<rparr>,
      w\<lparr> cursor := cursor w + 8,
         sent := sent w @
           [\<lparr> url = NAVIDROME_URL (cfg E) @ ''/rest/download'',
               params = [(''u'', PStr (SUBSONIC_USER (cfg E))),
                 (''t'', PStr (md5_hex (SUBSONIC_PASSWORD (cfg E) @ fst (token_hex 8 w)))),
                 (''s'', PStr (fst (token_hex 8 w))),
                 (''v'', PStr (SUBSONIC_VERSION (cfg E))),
                 (''c'', PStr (SUBSONIC_CLIENT (cfg E))),
                 (''f'', PStr ''json''),
                 (''id'', PStr song_id)],
               sent_headers =
                 (case hdr_get (req_headers req) ''Range'' of
                    None \<Rightarrow> []
                  | Some rng \<Rightarrow> if rng \<noteq> [] then [(''Range'', rng)] else []),
               stream = True \<rparr>] \<rparr>)"
  by (simp add: api_stream_def subsonic_auth_ok [OF assms] requests_get_def Response_def
        split: sum.splits)

lemma bare_cfg: "cfg bare_env = cfg example_env"
  by (simp add: bare_env_def)

text \<open>
  Claim C8, as the code has it. When the credentials are configured and upstream answers
  the request of \<^verbatim>\<open>/api/cover/{id}\<close>, the response has upstream's status code and chunks,
  and each of \<^verbatim>\<open>Content-Type\<close>, \<^verbatim>\<open>Content-Length\<close>, \<^verbatim>\<open>Cache-Control\<close>, \<^verbatim>\<open>ETag\<close>,
  \<^verbatim>\<open>Last-Modified\<close>, \<^verbatim>\<open>Accept-Ranges\<close> that upstream sends with a non-empty value has that
  value in the response.
\<close>

theorem cover_status_and_headers:
  assumes "SUBSONIC_USER (cfg E) \<noteq> []" and "SUBSONIC_PASSWORD (cfg E) \<noteq> []"
    and "network E (last (sent (snd (api_cover E cover_id w)))) = Inr up"
  shows "\<exists>resp. fst (api_cover E cover_id w) = Inr resp
           \<and> status resp = status_code up
           \<and> resp_body resp = StreamBody (gen up)
           \<and> (\<forall>h \<in> set cover_passthrough. \<forall>v.
                  hdr_get (up_headers up) h = Some v \<longrightarrow> v \<noteq> []
                  \<longrightarrow> hdr_get (resp_headers resp) h = Some v)"
proof -
  let ?resp = "\<lparr> status = status_code up,
                 resp_headers =
                   copy_headers cover_passthrough (up_headers up)
                     [(''Content-Type'', ''text/html; charset=utf-8'')],
                 resp_body = StreamBody (gen up) \<rparr>"
  from assms(3) have r: "fst (api_cover E cover_id w) = Inr ?resp"
    by (simp add: api_cover_run [OF assms(1,2)])
  have "\<forall>h \<in> set cover_passthrough. \<forall>v.
          hdr_get (up_headers up) h = Some v \<longrightarrow> v \<noteq> []
          \<longrightarrow> hdr_get (resp_headers ?resp) h = Some v"
    by (simp add: copied_header)
  with r show ?thesis by (intro exI [of _ ?resp]) simp
qed

theorem cover_status_and_headers_witness:
  "SUBSONIC_USER (cfg example_env) \<noteq> [] \<and> SUBSONIC_PASSWORD (cfg example_env) \<noteq> []
   \<and> network example_env (last (sent (snd (api_cover example_env ''al-1'' example_world))))
       = Inr cover_reply
   \<and> ''ETag'' \<in> set cover_passthrough
   \<and> hdr_get (up_headers cover_reply) ''ETag'' = Some ''W/1''
   \<and> ''Content-Type'' \<in> set cover_passthrough
   \<and> hdr_get (up_headers cover_reply) ''Content-Type'' = Some ''image/png''
   \<and> (\<exists>resp. fst (api_cover example_env ''al-1'' example_world) = Inr resp
         \<and> status resp = 404
         \<and> resp_body resp = StreamBody [''ab'', ''c'']
         \<and> hdr_get (resp_headers resp) ''ETag'' = Some ''W/1''
         \<and> hdr_get (resp_headers resp) ''Content-Type'' = Some ''image/png'')"
proof -
  have u: "SUBSONIC_USER (cfg example_env) \<noteq> []" by (simp add: example_cfg)
  have p: "SUBSONIC_PASSWORD (cfg example_env) \<noteq> []" by (simp add: example_cfg)
  have n: "network example_env (last (sent (snd (api_cover example_env ''al-1'' example_world))))
             = Inr cover_reply"
    by (simp add: api_cover_run [OF u p] example_cfg)
       (simp add: example_env_def example_network_def)
  have e: "''ETag'' \<in> set cover_passthrough" "''Content-Type'' \<in> set cover_passthrough"
    by (simp_all add: cover_passthrough_def)
  have h: "hdr_get (up_headers cover_reply) ''ETag'' = Some ''W/1''"
    "hdr_get (up_headers cover_reply) ''Content-Type'' = Some ''image/png''"
    by (simp_all add: cover_reply_def lower_eval)
  have g: "status_code cover_reply = 404" "gen cover_reply = [''ab'', ''c'']"
    by (simp_all add: cover_reply_def gen_def)
  from cover_status_and_headers [OF u p n] obtain resp where
    r: "fst (api_cover example_env ''al-1'' example_world) = Inr resp"
      "status resp = status_code cover_reply"
      "resp_body resp = StreamBody (gen cover_reply)"
      and c: "\<forall>h \<in> set cover_passthrough. \<forall>v.
                  hdr_get (up_headers cover_reply) h = Some v \<longrightarrow> v \<noteq> []
                  \<longrightarrow> hdr_get (resp_headers resp) h = Some v"
    by blast
  from c e h have "hdr_get (resp_headers resp) ''ETag'' = Some ''W/1''"
    and "hdr_get (resp_headers resp) ''Content-Type'' = Some ''image/png''"
    by auto
  with r g have "\<exists>resp. fst (api_cover example_env ''al-1'' example_world) = Inr resp
         \<and> status resp = 404
         \<and> resp_body resp = StreamBody [''ab'', ''c'']
         \<and> hdr_get (resp_headers resp) ''ETag'' = Some ''W/1''
         \<and> hdr_get (resp_headers resp) ''Content-Type'' = Some ''image/png''"
    by simp
  with u p n e h show ?thesis by blast
qed

text \<open>
  Claim C8 as stated fails on an upstream answer that carries an empty \<^verbatim>\<open>ETag\<close> and no
  \<^verbatim>\<open>Content-Type\<close>: the \<^verbatim>\<open>ETag\<close> header, present upstream, is not in the response, and the
  response's \<^verbatim>\<open>Content-Type\<close> is the default of the response class, not \<^verbatim>\<open>image/jpeg\<close>.
\<close>

theorem cover_claim_counterexample:
  "SUBSONIC_USER (cfg bare_env) \<noteq> [] \<and> SUBSONIC_PASSWORD (cfg bare_env) \<noteq> []
   \<and> network bare_env (last (sent (snd (api_cover bare_env ''al-1'' example_world))))
       = Inr bare_reply
   \<and> hdr_get (up_headers bare_reply) ''ETag'' = Some ''''
   \<and> hdr_get (up_headers bare_reply) ''Content-Type'' = None
   \<and> fst (api_cover bare_env ''al-1'' example_world) =
       Inr \<lparr> status = 200,
             resp_headers = [(''Content-Type'', ''text/html; charset=utf-8'')],
             resp_body = StreamBody [''ab''] \<rparr>"
proof -
  have u: "SUBSONIC_USER (cfg bare_env) \<noteq> []" by (simp add: bare_cfg example_cfg)
  have p: "SUBSONIC_PASSWORD (cfg bare_env) \<noteq> []" by (simp add: bare_cfg example_cfg)
  have n: "\<And>rq. network bare_env rq = Inr bare_reply" by (simp add: bare_env_def)
  have h: "hdr_get (up_headers bare_reply) ''ETag'' = Some ''''"
    "hdr_get (up_headers bare_reply) ''Content-Type'' = None"
    by (simp_all add: bare_reply_def lower_eval)
  have c: "copy_headers cover_passthrough (up_headers bare_reply)
             [(''Content-Type'', ''text/html; charset=utf-8'')]
           = [(''Content-Type'', ''text/html; charset=utf-8'')]"
    by (simp add: cover_passthrough_def bare_reply_def lower_eval)
  have r: "fst (api_cover bare_env ''al-1'' example_world) =
       Inr \<lparr> status = 200,
             resp_headers = [(''Content-Type'', ''text/html; charset=utf-8'')],
             resp_body = StreamBody [''ab''] \<rparr>"
    by (simp add: api_cover_run [OF u p] n c) (simp add: bare_reply_def gen_def)
  from u p n h r show ?thesis by simp
qed

text \<open>
  Claim C2, as the code has it. When the credentials are configured and upstream answers
  the request of \<^verbatim>\<open>/api/stream/{id}\<close>: the one request sent upstream carries the client's
  \<^verbatim>\<open>Range\<close> value unchanged when that value is not empty, and no header at all when the
  client sent none or an empty one; the response has upstream's status code and chunks; and
  a non-empty upstream \<^verbatim>\<open>Content-Range\<close> is in the response unchanged.
\<close>

theorem stream_range_passthrough:
  assumes "SUBSONIC_USER (cfg E) \<noteq> []" and "SUBSONIC_PASSWORD (cfg E) \<noteq> []"
    and "network E (last (sent (snd (api_stream E song_id req w)))) = Inr up"
  shows "\<exists>rq resp.
           sent (snd (api_stream E song_id req w)) = sent w @ [rq]
         \<and> url rq = NAVIDROME_URL (cfg E) @ ''/rest/download''
         \<and> sent_headers rq =
              (case hdr_get (req_headers req) ''Range'' of
                 None \<Rightarrow> []
               | Some rng \<Rightarrow> if rng \<noteq> [] then [(''Range'', rng)] else [])
         \<and> fst (api_stream E song_id req w) = Inr resp
         \<and> status resp = status_code up
         \<and> resp_body resp = StreamBody (gen up)
         \<and> (\<forall>v. hdr_get (up_headers up) ''Content-Range'' = Some v \<longrightarrow> v \<noteq> []
                \<longrightarrow> hdr_get (resp_headers resp) ''Content-Range'' = Some v)"
proof -
  let ?rq = "\<lparr> url = NAVIDROME_URL (cfg E) @ ''/rest/download'',
               params = [(''u'', PStr (SUBSONIC_USER (cfg E))),
                 (''t'', PStr (md5_hex (SUBSONIC_PASSWORD (cfg E) @ fst (token_hex 8 w)))),
                 (''s'', PStr (fst (token_hex 8 w))),
                 (''v'', PStr (SUBSONIC_VERSION (cfg E))),
                 (''c'', PStr (SUBSONIC_CLIENT (cfg E))),
                 (''f'', PStr ''json''),
                 (''id'', PStr song_id)],
               sent_headers =
                 (case hdr_get (req_headers req) ''Range'' of
                    None \<Rightarrow> []
                  | Some rng \<Rightarrow> if rng \<noteq> [] then [(''Range'', rng)] else []),
               stream = True \<rparr>"
  let ?resp = "\<lparr> status = status_code up,
                 resp_headers =
                   hdr_setdefault
                     (hdr_setdefault
                        (copy_headers passthrough (up_headers up)
                           [(''Content-Type'', ''text/html; charset=utf-8'')])
                        ''Accept-Ranges'' ''bytes'')
                     ''Content-Type'' ''audio/mpeg'',
                 resp_body = StreamBody (gen up) \<rparr>"
  have s: "sent (snd (api_stream E song_id req w)) = sent w @ [?rq]"
    by (simp add: api_stream_run [OF assms(1,2)])
  with assms(3) have n: "network E ?rq = Inr up" by simp
  have r: "fst (api_stream E song_id req w) = Inr ?resp"
    by (simp add: api_stream_run [OF assms(1,2)] n)
  have d: "py_lower ''Content-Range'' \<noteq> py_lower ''Accept-Ranges''"
    "py_lower ''Content-Range'' \<noteq> py_lower ''Content-Type''"
    by (simp_all add: lower_eval)
  have m: "''Content-Range'' \<in> set passthrough" by (simp add: passthrough_def)
  have c: "\<forall>v. hdr_get (up_headers up) ''Content-Range'' = Some v \<longrightarrow> v \<noteq> []
                \<longrightarrow> hdr_get (resp_headers ?resp) ''Content-Range'' = Some v"
    using d m by (simp add: hdr_get_setdefault copied_header)
  show ?thesis
    using s r c by (intro exI [of _ ?rq] exI [of _ ?resp]) simp
qed

theorem stream_range_passthrough_witness:
  "SUBSONIC_USER (cfg example_env) \<noteq> [] \<and> SUBSONIC_PASSWORD (cfg example_env) \<noteq> []
   \<and> network example_env
        (last (sent (snd (api_stream example_env ''s1''
                            \<lparr>args = [], req_headers = [(''range'', ''bytes=100-'')]\<rparr>
                            example_world))))
       = Inr stream_reply
   \<and> hdr_get (up_headers stream_reply) ''Content-Range'' = Some ''bytes 100-102/1000''
   \<and> (\<exists>rq resp.
         sent (snd (api_stream example_env ''s1''
                      \<lparr>args = [], req_headers = [(''range'', ''bytes=100-'')]\<rparr>
                      example_world)) = [rq]
       \<and> sent_headers rq = [(''Range'', ''bytes=100-'')]
       \<and> fst (api_stream example_env ''s1''
                 \<lparr>args = [], req_headers = [(''range'', ''bytes=100-'')]\<rparr>
                 example_world) = Inr resp
       \<and> status resp = 206
       \<and> resp_body resp = StreamBody [''xyz'']
       \<and> hdr_get (resp_headers resp) ''Content-Range'' = Some ''bytes 100-102/1000'')"
proof -
  let ?req = "\<lparr>args = [], req_headers = [(''range'', ''bytes=100-'')]\<rparr>"
  have u: "SUBSONIC_USER (cfg example_env) \<noteq> []" by (simp add: example_cfg)
  have p: "SUBSONIC_PASSWORD (cfg example_env) \<noteq> []" by (simp add: example_cfg)
  have n: "network example_env (last (sent (snd (api_stream example_env ''s1'' ?req example_world))))
             = Inr stream_reply"
    by (simp add: api_stream_run [OF u p] example_cfg)
       (simp add: example_env_def example_network_def)
  have h: "hdr_get (up_headers stream_reply) ''Content-Range'' = Some ''bytes 100-102/1000''"
    by (simp add: stream_reply_def lower_eval)
  have g: "status_code stream_reply = 206" "gen stream_reply = [''xyz'']"
    by (simp_all add: stream_reply_def gen_def)
  have q: "hdr_get (req_headers ?req) ''Range'' = Some ''bytes=100-''"
    by (simp add: lower_eval)
  have e: "sent example_world = []" by (simp add: example_world_def)
  from stream_range_passthrough [OF u p n] obtain rq resp where
    r: "sent (snd (api_stream example_env ''s1'' ?req example_world)) = sent example_world @ [rq]"
      "sent_headers rq =
         (case hdr_get (req_headers ?req) ''Range'' of
            None \<Rightarrow> []
          | Some rng \<Rightarrow> if rng \<noteq> [] then [(''Range'', rng)] else [])"
      "fst (api_stream example_env ''s1'' ?req example_world) = Inr resp"
      "status resp = status_code stream_reply"
      "resp_body resp = StreamBody (gen stream_reply)"
      and c: "\<forall>v. hdr_get (up_headers stream_reply) ''Content-Range'' = Some v \<longrightarrow> v \<noteq> []
                \<longrightarrow> hdr_get (resp_headers resp) ''Content-Range'' = Some v"
    by blast
  from c h have cr: "hdr_get (resp_headers resp) ''Content-Range'' = Some ''bytes 100-102/1000''"
    by simp
  from r(2) q have sh: "sent_headers rq = [(''Range'', ''bytes=100-'')]" by simp
  from r(1) e have s1: "sent (snd (api_stream example_env ''s1'' ?req example_world)) = [rq]"
    by simp
  from r(4) g have st: "status resp = 206" by simp
  from r(5) g have bd: "resp_body resp = StreamBody [''xyz'']" by simp
  from s1 sh r(3) st bd cr
  have "\<exists>rq resp.
         sent (snd (api_stream example_env ''s1'' ?req example_world)) = [rq]
       \<and> sent_headers rq = [(''Range'', ''bytes=100-'')]
       \<and> fst (api_stream example_env ''s1'' ?req example_world) = Inr resp
       \<and> status resp = 206
       \<and> resp_body resp = StreamBody [''xyz'']
       \<and> hdr_get (resp_headers resp) ''Content-Range'' = Some ''bytes 100-102/1000''"
    by blast
  with u p n h show ?thesis by blast
qed

text \<open>
  Claim C2 as stated fails on a request whose \<^verbatim>\<open>Range\<close> header is empty, answered by an
  upstream whose \<^verbatim>\<open>Content-Range\<close> is empty: the client supplied a \<^verbatim>\<open>Range\<close> header and
  none is forwarded, and upstream's \<^verbatim>\<open>Content-Range\<close> header is not in the response.
\<close>

theorem stream_claim_counterexample:
  "hdr_get (req_headers \<lparr>args = [], req_headers = [(''Range'', '''')]\<rparr>) ''Range'' = Some ''''
   \<and> hdr_get (up_headers bare_reply) ''Content-Range'' = Some ''''
   \<and> network bare_env
        (last (sent (snd (api_stream bare_env ''s1''
                            \<lparr>args = [], req_headers = [(''Range'', '''')]\<rparr> example_world))))
       = Inr bare_reply
   \<and> sent_headers
        (last (sent (snd (api_stream bare_env ''s1''
                            \<lparr>args = [], req_headers = [(''Range'', '''')]\<rparr> example_world))))
       = []
   \<and> fst (api_stream bare_env ''s1'' \<lparr>args = [], req_headers = [(''Range'', '''')]\<rparr>
            example_world) =
       Inr \<lparr> status = 200,
             resp_headers = [(''Content-Type'', ''text/html; charset=utf-8''),
                             (''Accept-Ranges'', ''bytes'')],
             resp_body = StreamBody [''ab''] \<rparr>"
proof -
  let ?req = "\<lparr>args = [], req_headers = [(''Range'', '''')]\<rparr>"
  have u: "SUBSONIC_USER (cfg bare_env) \<noteq> []" by (simp add: bare_cfg example_cfg)
  have p: "SUBSONIC_PASSWORD (cfg bare_env) \<noteq> []" by (simp add: bare_cfg example_cfg)
  have n: "\<And>rq. network bare_env rq = Inr bare_reply" by (simp add: bare_env_def)
  have q: "hdr_get (req_headers ?req) ''Range'' = Some ''''" by simp
  have h: "hdr_get (up_headers bare_reply) ''Content-Range'' = Some ''''"
    by (simp add: bare_reply_def lower_eval)
  have c: "hdr_setdefault
             (hdr_setdefault
                (copy_headers passthrough (up_headers bare_reply)
                   [(''Content-Type'', ''text/html; charset=utf-8'')])
                ''Accept-Ranges'' ''bytes'')
             ''Content-Type'' ''audio/mpeg''
           = [(''Content-Type'', ''text/html; charset=utf-8''), (''Accept-Ranges'', ''bytes'')]"
    by (simp add: passthrough_def bare_reply_def hdr_setdefault_def lower_eval)
  have s: "sent_headers (last (sent (snd (api_stream bare_env ''s1'' ?req example_world)))) = []"
    by (simp add: api_stream_run [OF u p])
  have r: "fst (api_stream bare_env ''s1'' ?req example_world) =
       Inr \<lparr> status = 200,
             resp_headers = [(''Content-Type'', ''text/html; charset=utf-8''),
                             (''Accept-Ranges'', ''bytes'')],
             resp_body = StreamBody [''ab''] \<rparr>"
    by (simp add: api_stream_run [OF u p] n c) (simp add: bare_reply_def gen_def)
  from q h n s r show ?thesis by simp
qed

section \<open>The query handlers: what is sent upstream\<close>

lemma api_random_list_run:
  assumes "SUBSONIC_USER (cfg E) \<noteq> []" and "SUBSONIC_PASSWORD (cfg E) \<noteq> []"
  shows "api_random_list E req w =
     (case network E
             \<lparr> url = NAVIDROME_URL (cfg E) @ ''/rest/getRandomSongs'',
               params = [(''u'', PStr (SUBSONIC_USER (cfg E))),
                 (''t'', PStr (md5_hex (SUBSONIC_PASSWORD (cfg E) @ fst (token_hex 8 w)))),
                 (''s'', PStr (fst (token_hex 8 w))),
                 (''v'', PStr (SUBSONIC_VERSION (cfg E))),
                 (''c'', PStr (SUBSONIC_CLIENT (cfg E))),
                 (''f'', PStr ''json''),
                 (''size'', PInt (case map_of (args req) ''size'' of
                                   None \<Rightarrow> 30
                                 | Some a \<Rightarrow> (case py_int (int_max_str_digits E) a of
                                                Some n \<Rightarrow> n | None \<Rightarrow> 30)))],
               sent_headers = [],
               stream = False \<rparr> of
        Inl e \<Rightarrow> Inl e
      | Inr r \<Rightarrow>
          (case envelope r of
             Inl e \<Rightarrow>
               Inr (with_status
                      (jsonify [(''success'', PBool False),
                                (''error'', PStr ''Upstream invalid JSON'')]) 502)
           | Inr js \<Rightarrow>
               bind_err (py_get js ''randomSongs'' (PDict [])) (\<lambda>rs.
               bind_err (py_get rs ''song'' (PList [])) (\<lambda>v.
               bind_err (build_payload (py_or v (PList []))) (\<lambda>payload.
               Inr (jsonify [(''success'', PBool True), (''songs'', PList payload)]))))),
      w\<lparr> cursor := cursor w + 8,
         sent := sent w @
           [\<lparr> url = NAVIDROME_URL (cfg E) @ ''/rest/getRandomSongs'',
               params = [(''u'', PStr (SUBSONIC_USER (cfg E))),
                 (''t'', PStr (md5_hex (SUBSONIC_PASSWORD (cfg E) @ fst (token_hex 8 w)))),
                 (''s'', PStr (fst (token_hex 8 w))),
                 (''v'', PStr (SUBSONIC_VERSION (cfg E))),
                 (''c'', PStr (SUBSONIC_CLIENT (cfg E))),
                 (''f'', PStr ''json''),
                 (''size'', PInt (case map_of (args req) ''size'' of
                                   None \<Rightarrow> 30
                                 | Some a \<Rightarrow> (case py_int (int_max_str_digits E) a of
                                                Some n \<Rightarrow> n | None \<Rightarrow> 30)))],
               sent_headers = [],
               stream = False \<rparr>] \<rparr>)"
  by (simp add: api_random_list_def subsonic_auth_ok [OF assms] requests_get_def
        split: sum.splits)

lemma api_search_run:
  assumes "SUBSONIC_USER (cfg E) \<noteq> []" and "SUBSONIC_PASSWORD (cfg E) \<noteq> []"
    and "map_of (args req) ''query'' = Some qa" and "py_strip qa \<noteq> []"
    and "(case map_of (args req) ''songCount'' of
            None \<Rightarrow> Some 25
          | Some a \<Rightarrow> py_int (int_max_str_digits E) a) = Some songCount"
  shows "api_search E req w =
     (case network E
             \<lparr> url = NAVIDROME_URL (cfg E) @ ''/rest/search3'',
               params = [(''u'', PStr (SUBSONIC_USER (cfg E))),
                 (''t'', PStr (md5_hex (SUBSONIC_PASSWORD (cfg E) @ fst (token_hex 8 w)))),
                 (''s'', PStr (fst (token_hex 8 w))),
                 (''v'', PStr (SUBSONIC_VERSION (cfg E))),
                 (''c'', PStr (SUBSONIC_CLIENT (cfg E))),
                 (''f'', PStr ''json''),
                 (''query'', PStr (py_strip qa)),
                 (''songCount'', PInt songCount),
                 (''albumCount'', PInt 0),
                 (''artistCount'', PInt 0)],
               sent_headers = [],
               stream = False \<rparr> of
        Inl e \<Rightarrow> Inl e
      | Inr r \<Rightarrow>
          (case envelope r of
             Inl e \<Rightarrow>
               Inr (with_status
                      (jsonify [(''success'', PBool False),
                                (''error'', PStr ''Upstream invalid JSON'')]) 502)
           | Inr js \<Rightarrow>
               bind_err (py_get js ''searchResult3'' (PDict [])) (\<lambda>res0.
               bind_err (py_get (py_or res0 (PDict [])) ''song'' (PList [])) (\<lambda>v.
               bind_err (build_payload (py_or v (PList []))) (\<lambda>results.
               Inr (jsonify [(''success'', PBool True), (''results'', PList results)]))))),
      w\<lparr> cursor := cursor w + 8,
         sent := sent w @
           [\<lparr> url = NAVIDROME_URL (cfg E) @ ''/rest/search3'',
               params = [(''u'', PStr (SUBSONIC_USER (cfg E))),
                 (''t'', PStr (md5_hex (SUBSONIC_PASSWORD (cfg E) @ fst (token_hex 8 w)))),
                 (''s'', PStr (fst (token_hex 8 w))),
                 (''v'', PStr (SUBSONIC_VERSION (cfg E))),
                 (''c'', PStr (SUBSONIC_CLIENT (cfg E))),
                 (''f'', PStr ''json''),
                 (''query'', PStr (py_strip qa)),
                 (''songCount'', PInt songCount),
                 (''albumCount'', PInt 0),
                 (''artistCount'', PInt 0)],
               sent_headers = [],
               stream = False \<rparr>] \<rparr>)"
proof -
  from assms(3,4) have q: "py_strip (case map_of (args req) ''query'' of
                          None \<Rightarrow> []
                        | Some a \<Rightarrow> if a \<noteq> [] then a else []) = py_strip qa"
    by simp
  from assms(5) have c: "(case map_of (args req) ''songCount'' of
                     None \<Rightarrow> Inr 25
                   | Some a \<Rightarrow> (case py_int (int_max_str_digits E) a of
                                  Some n \<Rightarrow> Inr n
                                | None \<Rightarrow> Inl ValueError)) = (Inr songCount :: py_error + int)"
    by (auto split: option.splits)
  show ?thesis
    unfolding api_search_def Let_def q c
    using assms(4)
    by (simp add: subsonic_auth_ok [OF assms(1,2)] requests_get_def split: sum.splits)
qed

lemma py_strip_Nil: "py_strip [] = []"
  by (simp add: py_strip_def)

lemmas int_eval = py_int_def int_strip_def int_isspace_def digit_of_def

text \<open>The conversion on some numerals: padded and grouped, and the refused ones (a letter,
  a doubled underscore, nothing at all, a separator that \<^verbatim>\<open>int\<close> does not skip).\<close>

lemma py_int_accepts: "py_int 4300 [CHR '' '', CHR ''-'', CHR ''1'', CHR ''_'', CHR ''0'', CHR '' ''] = Some (- 10)"
  "py_int 4300 [CHR ''+'', CHR ''0'', CHR ''7''] = Some 7"
  by (simp_all add: int_eval)

lemma py_int_refuses:
  "py_int 4300 [CHR ''1'', CHR ''o''] = None"
  "py_int 4300 [CHR ''1'', CHR ''_'', CHR ''_'', CHR ''0''] = None"
  "py_int 4300 [] = None"
  "py_int 4300 [char_of (28 :: nat), CHR ''5''] = None"
  by (simp_all add: int_eval char_of_def bit_Suc_0_iff)

section \<open>Errors before the upstream call\<close>

text \<open>
  Claim C7. A request to \<^verbatim>\<open>/api/search\<close> whose \<^verbatim>\<open>query\<close> argument is missing, or is
  empty once stripped, gets status 400 with the body \<^verbatim>\<open>{success: false, error: "No
  query"}\<close>; the state is untouched, so nothing is sent upstream.
\<close>

theorem search_no_query:
  assumes "map_of (args req) ''query'' = None
         \<or> (\<exists>a. map_of (args req) ''query'' = Some a \<and> py_strip a = [])"
  shows "api_search E req w =
           (Inr \<lparr> status = 400,
                  resp_headers = [(''Content-Type'', ''application/json'')],
                  resp_body = JsonBody (PDict [(''success'', PBool False),
                                               (''error'', PStr ''No query'')]) \<rparr>, w)
       \<and> sent (snd (api_search E req w)) = sent w"
proof -
  from assms have "py_strip (case map_of (args req) ''query'' of
                          None \<Rightarrow> []
                        | Some a \<Rightarrow> if a \<noteq> [] then a else []) = []"
    by (auto simp: py_strip_Nil)
  then show ?thesis
    by (simp add: api_search_def Let_def jsonify_def with_status_def)
qed

theorem search_no_query_witness:
  "(map_of (args \<lparr>args = [(''songCount'', ''5'')], req_headers = []\<rparr>) ''query'' = None
    \<or> (\<exists>a. map_of (args \<lparr>args = [(''songCount'', ''5'')], req_headers = []\<rparr>) ''query'' = Some a
           \<and> py_strip a = []))
   \<and> http_status (fst (api_search example_env
                          \<lparr>args = [(''songCount'', ''5'')], req_headers = []\<rparr> example_world)) = 400
   \<and> sent (snd (api_search example_env
                   \<lparr>args = [(''songCount'', ''5'')], req_headers = []\<rparr> example_world)) = []
   \<and> (map_of (args \<lparr>args = [(''query'', ''  ''), (''songCount'', ''x'')], req_headers = []\<rparr>)
         ''query'' = None
      \<or> (\<exists>a. map_of (args \<lparr>args = [(''query'', ''  ''), (''songCount'', ''x'')],
                             req_headers = []\<rparr>) ''query'' = Some a
             \<and> py_strip a = []))
   \<and> fst (api_search unset_env
            \<lparr>args = [(''query'', ''  ''), (''songCount'', ''x'')], req_headers = []\<rparr>
            example_world) =
       Inr \<lparr> status = 400,
             resp_headers = [(''Content-Type'', ''application/json'')],
             resp_body = JsonBody (PDict [(''success'', PBool False),
                                          (''error'', PStr ''No query'')]) \<rparr>"
proof -
  let ?r1 = "\<lparr>args = [(''songCount'', ''5'')], req_headers = []\<rparr>"
  let ?r2 = "\<lparr>args = [(''query'', ''  ''), (''songCount'', ''x'')], req_headers = []\<rparr>"
  have h1: "map_of (args ?r1) ''query'' = None
         \<or> (\<exists>a. map_of (args ?r1) ''query'' = Some a \<and> py_strip a = [])"
    by simp
  have h2: "map_of (args ?r2) ''query'' = None
         \<or> (\<exists>a. map_of (args ?r2) ''query'' = Some a \<and> py_strip a = [])"
    by (simp add: py_strip_def py_isspace_def)
  have e: "sent example_world = []" by (simp add: example_world_def)
  from search_no_query [OF h1, of example_env example_world] e
  have a: "http_status (fst (api_search example_env ?r1 example_world)) = 400"
    and b: "sent (snd (api_search example_env ?r1 example_world)) = []"
    by simp_all
  from search_no_query [OF h2, of unset_env example_world]
  have c: "fst (api_search unset_env ?r2 example_world) =
       Inr \<lparr> status = 400,
             resp_headers = [(''Content-Type'', ''application/json'')],
             resp_body = JsonBody (PDict [(''success'', PBool False),
                                          (''error'', PStr ''No query'')]) \<rparr>"
    by simp
  from h1 h2 a b c show ?thesis by blast
qed

text \<open>
  Claim C6, as the code has it. With an empty configured user or password, the cover, stream
  and random-list handlers, and the search handler on a request whose query is not empty
  once stripped, fail with \<^verbatim>\<open>abort(500, "SUBSONIC_USER and SUBSONIC_PASSWORD env vars must be
  set")\<close>, which the client sees as status 500; the state is untouched, so no upstream
  request has been sent.
\<close>

theorem missing_credentials_fail_fast:
  assumes "SUBSONIC_USER (cfg E) = [] \<or> SUBSONIC_PASSWORD (cfg E) = []"
  shows "api_cover E cover_id w =
           (Inl (HTTPException 500 ''SUBSONIC_USER and SUBSONIC_PASSWORD env vars must be set''), w)
       \<and> api_stream E song_id req w =
           (Inl (HTTPException 500 ''SUBSONIC_USER and SUBSONIC_PASSWORD env vars must be set''), w)
       \<and> api_random_list E req w =
           (Inl (HTTPException 500 ''SUBSONIC_USER and SUBSONIC_PASSWORD env vars must be set''), w)
       \<and> (\<forall>qa. map_of (args req) ''query'' = Some qa \<longrightarrow> py_strip qa \<noteq> [] \<longrightarrow>
             api_search E req w =
               (Inl (HTTPException 500
                       ''SUBSONIC_USER and SUBSONIC_PASSWORD env vars must be set''), w))
       \<and> http_status
           (Inl (HTTPException 500 ''SUBSONIC_USER and SUBSONIC_PASSWORD env vars must be set''))
           = 500"
proof (intro conjI allI impI)
  show "api_cover E cover_id w =
           (Inl (HTTPException 500 ''SUBSONIC_USER and SUBSONIC_PASSWORD env vars must be set''), w)"
    by (simp add: api_cover_def subsonic_auth_missing [OF assms])
  show "api_stream E song_id req w =
           (Inl (HTTPException 500 ''SUBSONIC_USER and SUBSONIC_PASSWORD env vars must be set''), w)"
    by (simp add: api_stream_def subsonic_auth_missing [OF assms])
  show "api_random_list E req w =
           (Inl (HTTPException 500 ''SUBSONIC_USER and SUBSONIC_PASSWORD env vars must be set''), w)"
    by (simp add: api_random_list_def subsonic_auth_missing [OF assms])
  show "http_status
           (Inl (HTTPException 500 ''SUBSONIC_USER and SUBSONIC_PASSWORD env vars must be set''))
           = 500"
    by simp
next
  fix qa
  assume q: "map_of (args req) ''query'' = Some qa" "py_strip qa \<noteq> []"
  then have "py_strip (case map_of (args req) ''query'' of
                          None \<Rightarrow> []
                        | Some a \<Rightarrow> if a \<noteq> [] then a else []) = py_strip qa"
    by simp
  with q(2) show "api_search E req w =
               (Inl (HTTPException 500
                       ''SUBSONIC_USER and SUBSONIC_PASSWORD env vars must be set''), w)"
    by (simp add: api_search_def Let_def subsonic_auth_missing [OF assms])
qed

theorem missing_credentials_fail_fast_witness:
  "(SUBSONIC_USER (cfg unset_env) = [] \<or> SUBSONIC_PASSWORD (cfg unset_env) = [])
   \<and> map_of (args \<lparr>args = [(''query'', '' joni '')], req_headers = []\<rparr>) ''query'' = Some '' joni ''
   \<and> py_strip '' joni '' \<noteq> []
   \<and> http_status (fst (api_cover unset_env ''al-1'' example_world)) = 500
   \<and> snd (api_cover unset_env ''al-1'' example_world) = example_world
   \<and> http_status (fst (api_stream unset_env ''s1''
                          \<lparr>args = [(''query'', '' joni '')], req_headers = []\<rparr> example_world)) = 500
   \<and> http_status (fst (api_random_list unset_env
                          \<lparr>args = [(''query'', '' joni '')], req_headers = []\<rparr> example_world)) = 500
   \<and> api_search unset_env \<lparr>args = [(''query'', '' joni '')], req_headers = []\<rparr> example_world =
       (Inl (HTTPException 500 ''SUBSONIC_USER and SUBSONIC_PASSWORD env vars must be set''),
        example_world)"
proof -
  let ?r = "\<lparr>args = [(''query'', '' joni '')], req_headers = []\<rparr>"
  have h: "SUBSONIC_USER (cfg unset_env) = [] \<or> SUBSONIC_PASSWORD (cfg unset_env) = []"
    by (simp add: unset_cfg)
  have q: "map_of (args ?r) ''query'' = Some '' joni ''" by simp
  have s: "py_strip '' joni '' \<noteq> []" by (simp add: py_strip_def py_isspace_def)
  note t = missing_credentials_fail_fast [OF h, of "''al-1''" example_world "''s1''" ?r]
  from t have a: "http_status (fst (api_cover unset_env ''al-1'' example_world)) = 500"
    and b: "snd (api_cover unset_env ''al-1'' example_world) = example_world"
    and c: "http_status (fst (api_stream unset_env ''s1'' ?r example_world)) = 500"
    and d: "http_status (fst (api_random_list unset_env ?r example_world)) = 500"
    by simp_all
  from t q s have e: "api_search unset_env ?r example_world =
       (Inl (HTTPException 500 ''SUBSONIC_USER and SUBSONIC_PASSWORD env vars must be set''),
        example_world)"
    by blast
  from h q s a b c d e show ?thesis by blast
qed

text \<open>
  Claim C6 as stated fails on the search handler: without credentials, a search request
  with no query is answered with status 400, not 500, because the query is checked before
  the auth parameters are built.
\<close>

theorem missing_credentials_counterexample:
  "SUBSONIC_USER (cfg unset_env) = [] \<and> SUBSONIC_PASSWORD (cfg unset_env) = []
   \<and> fst (api_search unset_env \<lparr>args = [], req_headers = []\<rparr> example_world) =
       Inr \<lparr> status = 400,
             resp_headers = [(''Content-Type'', ''application/json'')],
             resp_body = JsonBody (PDict [(''success'', PBool False),
                                          (''error'', PStr ''No query'')]) \<rparr>
   \<and> http_status (fst (api_search unset_env \<lparr>args = [], req_headers = []\<rparr> example_world))
       \<noteq> 500"
  by (simp add: unset_cfg api_search_def py_strip_Nil jsonify_def with_status_def)

section \<open>The optional integer arguments\<close>

text \<open>
  Claim C9. With the credentials configured, a request to \<^verbatim>\<open>/api/random/list\<close> sends one
  request upstream, to \<^verbatim>\<open>getRandomSongs\<close>, whose \<^verbatim>\<open>size\<close> parameter is the integer the
  \<^verbatim>\<open>size\<close> argument parses to, and 30 when the argument is absent or does not parse. A
  \<^verbatim>\<open>size\<close> that does not parse changes nothing else: the handler does exactly what it does
  on the request without arguments.
\<close>

theorem random_list_size:
  assumes "SUBSONIC_USER (cfg E) \<noteq> []" and "SUBSONIC_PASSWORD (cfg E) \<noteq> []"
  shows "\<exists>rq. sent (snd (api_random_list E req w)) = sent w @ [rq]
           \<and> url rq = NAVIDROME_URL (cfg E) @ ''/rest/getRandomSongs''
           \<and> map_of (params rq) ''size'' =
                Some (PInt (case map_of (args req) ''size'' of
                              None \<Rightarrow> 30
                            | Some a \<Rightarrow> (case py_int (int_max_str_digits E) a of
                                           Some n \<Rightarrow> n | None \<Rightarrow> 30)))
           \<and> (\<forall>a. map_of (args req) ''size'' = Some a \<longrightarrow>
                    py_int (int_max_str_digits E) a = None \<longrightarrow>
                    api_random_list E req w = api_random_list E (req\<lparr>args := []\<rparr>) w)"
proof -
  let ?rq = "\<lparr> url = NAVIDROME_URL (cfg E) @ ''/rest/getRandomSongs'',
               params = [(''u'', PStr (SUBSONIC_USER (cfg E))),
                 (''t'', PStr (md5_hex (SUBSONIC_PASSWORD (cfg E) @ fst (token_hex 8 w)))),
                 (''s'', PStr (fst (token_hex 8 w))),
                 (''v'', PStr (SUBSONIC_VERSION (cfg E))),
                 (''c'', PStr (SUBSONIC_CLIENT (cfg E))),
                 (''f'', PStr ''json''),
                 (''size'', PInt (case map_of (args req) ''size'' of
                                   None \<Rightarrow> 30
                                 | Some a \<Rightarrow> (case py_int (int_max_str_digits E) a of
                                                Some n \<Rightarrow> n | None \<Rightarrow> 30)))],
               sent_headers = [],
               stream = False \<rparr>"
  have s: "sent (snd (api_random_list E req w)) = sent w @ [?rq]"
    by (simp add: api_random_list_run [OF assms])
  have m: "\<forall>a. map_of (args req) ''size'' = Some a \<longrightarrow>
                    py_int (int_max_str_digits E) a = None \<longrightarrow>
                    api_random_list E req w = api_random_list E (req\<lparr>args := []\<rparr>) w"
    by (simp add: api_random_list_def)
  from s m show ?thesis
    by (intro exI [of _ ?rq]) simp
qed

theorem random_list_size_witness:
  "SUBSONIC_USER (cfg example_env) \<noteq> [] \<and> SUBSONIC_PASSWORD (cfg example_env) \<noteq> []
   \<and> map_of (args \<lparr>args = [(''size'', ''1o'')], req_headers = []\<rparr>) ''size'' = Some ''1o''
   \<and> py_int (int_max_str_digits example_env) ''1o'' = None
   \<and> py_int (int_max_str_digits example_env) '' 5 '' = Some 5
   \<and> (\<exists>rq. sent (snd (api_random_list example_env
                        \<lparr>args = [(''size'', ''1o'')], req_headers = []\<rparr> example_world)) = [rq]
          \<and> map_of (params rq) ''size'' = Some (PInt 30))
   \<and> (\<exists>rq. sent (snd (api_random_list example_env
                        \<lparr>args = [(''size'', '' 5 '')], req_headers = []\<rparr> example_world)) = [rq]
          \<and> map_of (params rq) ''size'' = Some (PInt 5))
   \<and> (\<exists>rq. sent (snd (api_random_list example_env
                        \<lparr>args = [], req_headers = []\<rparr> example_world)) = [rq]
          \<and> map_of (params rq) ''size'' = Some (PInt 30))
   \<and> api_random_list example_env \<lparr>args = [(''size'', ''1o'')], req_headers = []\<rparr> example_world
       = api_random_list example_env \<lparr>args = [], req_headers = []\<rparr> example_world"
proof -
  let ?bad = "\<lparr>args = [(''size'', ''1o'')], req_headers = []\<rparr>"
  let ?good = "\<lparr>args = [(''size'', '' 5 '')], req_headers = []\<rparr>"
  let ?none = "\<lparr>args = [], req_headers = [] :: (string \<times> string) list\<rparr>"
  have u: "SUBSONIC_USER (cfg example_env) \<noteq> []" by (simp add: example_cfg)
  have p: "SUBSONIC_PASSWORD (cfg example_env) \<noteq> []" by (simp add: example_cfg)
  have e: "sent example_world = []" by (simp add: example_world_def)
  have a: "map_of (args ?bad) ''size'' = Some ''1o''" by simp
  have i1: "py_int (int_max_str_digits example_env) ''1o'' = None"
    by (simp add: example_env_def int_eval)
  have i2: "py_int (int_max_str_digits example_env) '' 5 '' = Some 5"
    by (simp add: example_env_def int_eval)
  from random_list_size [OF u p, of ?bad example_world] e a i1
  have b: "\<exists>rq. sent (snd (api_random_list example_env ?bad example_world)) = [rq]
          \<and> map_of (params rq) ''size'' = Some (PInt 30)"
    and same: "api_random_list example_env ?bad example_world
               = api_random_list example_env ?none example_world"
    by auto
  from random_list_size [OF u p, of ?good example_world] e i2
  have g: "\<exists>rq. sent (snd (api_random_list example_env ?good example_world)) = [rq]
          \<and> map_of (params rq) ''size'' = Some (PInt 5)"
    by auto
  from random_list_size [OF u p, of ?none example_world] e
  have n: "\<exists>rq. sent (snd (api_random_list example_env ?none example_world)) = [rq]
          \<and> map_of (params rq) ''size'' = Some (PInt 30)"
    by auto
  from u p a i1 i2 b g n same show ?thesis by blast
qed

text \<open>
  Claim C10. With the credentials configured, a request to \<^verbatim>\<open>/api/search\<close> with a query
  that is not empty once stripped and a \<^verbatim>\<open>songCount\<close> argument that does not parse as an
  integer ends in the \<^verbatim>\<open>ValueError\<close> of the conversion, which no handler catches: the
  client sees status 500, the auth parameters have been built (the salt is drawn) and
  nothing has been sent upstream.
\<close>

theorem search_songCount_unguarded:
  assumes "SUBSONIC_USER (cfg E) \<noteq> []" and "SUBSONIC_PASSWORD (cfg E) \<noteq> []"
    and "map_of (args req) ''query'' = Some qa" and "py_strip qa \<noteq> []"
    and "map_of (args req) ''songCount'' = Some a"
    and "py_int (int_max_str_digits E) a = None"
  shows "api_search E req w = (Inl ValueError, w\<lparr>cursor := cursor w + 8\<rparr>)
       \<and> http_status (fst (api_search E req w)) = 500
       \<and> sent (snd (api_search E req w)) = sent w"
proof -
  from assms(3,4) have q: "py_strip (case map_of (args req) ''query'' of
                          None \<Rightarrow> []
                        | Some a \<Rightarrow> if a \<noteq> [] then a else []) = py_strip qa"
    by simp
  have "api_search E req w = (Inl ValueError, w\<lparr>cursor := cursor w + 8\<rparr>)"
    unfolding api_search_def Let_def q
    using assms(4,5,6) by (simp add: subsonic_auth_ok [OF assms(1,2)])
  then show ?thesis by simp
qed

theorem search_songCount_unguarded_witness:
  "SUBSONIC_USER (cfg example_env) \<noteq> [] \<and> SUBSONIC_PASSWORD (cfg example_env) \<noteq> []
   \<and> map_of (args \<lparr>args = [(''query'', ''joni''), (''songCount'', ''ten'')], req_headers = []\<rparr>)
        ''query'' = Some ''joni''
   \<and> py_strip ''joni'' \<noteq> []
   \<and> map_of (args \<lparr>args = [(''query'', ''joni''), (''songCount'', ''ten'')], req_headers = []\<rparr>)
        ''songCount'' = Some ''ten''
   \<and> py_int (int_max_str_digits example_env) ''ten'' = None
   \<and> api_search example_env
        \<lparr>args = [(''query'', ''joni''), (''songCount'', ''ten'')], req_headers = []\<rparr>
        example_world = (Inl ValueError, example_world\<lparr>cursor := 8\<rparr>)
   \<and> http_status (fst (api_search example_env
        \<lparr>args = [(''query'', ''joni''), (''songCount'', ''ten'')], req_headers = []\<rparr>
        example_world)) = 500
   \<and> sent (snd (api_search example_env
        \<lparr>args = [(''query'', ''joni''), (''songCount'', ''ten'')], req_headers = []\<rparr>
        example_world)) = []"
proof -
  let ?r = "\<lparr>args = [(''query'', ''joni''), (''songCount'', ''ten'')], req_headers = []\<rparr>"
  have u: "SUBSONIC_USER (cfg example_env) \<noteq> []" by (simp add: example_cfg)
  have p: "SUBSONIC_PASSWORD (cfg example_env) \<noteq> []" by (simp add: example_cfg)
  have q: "map_of (args ?r) ''query'' = Some ''joni''" by simp
  have s: "py_strip ''joni'' \<noteq> []" by (simp add: py_strip_def py_isspace_def)
  have c: "map_of (args ?r) ''songCount'' = Some ''ten''" by simp
  have i: "py_int (int_max_str_digits example_env) ''ten'' = None"
    by (simp add: example_env_def int_eval)
  have e: "sent example_world = []" "cursor example_world = 0"
    by (simp_all add: example_world_def)
  from search_songCount_unguarded [OF u p q s c i, of example_world] e
  have r: "api_search example_env ?r example_world = (Inl ValueError, example_world\<lparr>cursor := 8\<rparr>)"
    "http_status (fst (api_search example_env ?r example_world)) = 500"
    "sent (snd (api_search example_env ?r example_world)) = []"
    by simp_all
  from u p q s c i r show ?thesis by blast
qed

section \<open>The query handlers: reshaping the upstream answer\<close>

lemma song_entry_dict: "song_entry (PDict kvs) = Inr (song_summary kvs)"
  by (simp add: song_entry_def bind_err_def song_summary_def Let_def split: option.splits)

lemma payload_loop_summaries:
  "filter truthy items = map PDict ds \<Longrightarrow>
     payload_loop items payload = Inr (payload @ map song_summary ds)"
proof (induction items arbitrary: payload ds)
  case Nil
  then show ?case by simp
next
  case (Cons s items)
  show ?case
  proof (cases "truthy s")
    case False
    with Cons.prems have "filter truthy items = map PDict ds" by simp
    with False show ?thesis by (simp add: Cons.IH)
  next
    case True
    with Cons.prems obtain kvs ds' where
      d: "ds = kvs # ds'" "s = PDict kvs" "filter truthy items = map PDict ds'"
      by (cases ds) auto
    from Cons.IH [OF d(3), of "payload @ [song_summary kvs]"] True d(1,2)
    show ?thesis by (simp add: song_entry_dict)
  qed
qed

lemma build_payload_summaries:
  assumes "normalize songs = Some items" and "filter truthy items = map PDict ds"
  shows "build_payload songs = Inr (map song_summary ds)"
proof -
  have l: "payload_loop items [] = Inr (map song_summary ds)"
    using payload_loop_summaries [OF assms(2), of "[]"] by simp
  have "build_payload songs = payload_loop items []"
  proof (cases songs)
    case (PDict kvs)
    with assms(1) have "items = [PDict kvs]" by simp
    with PDict show ?thesis
      by (simp add: build_payload_def bind_err_def del: payload_loop.simps)
  next
    case (PList xs)
    with assms(1) have "items = xs" by simp
    with PList show ?thesis
      by (simp add: build_payload_def bind_err_def del: payload_loop.simps)
  qed (use assms(1) in simp_all)
  with l show ?thesis by simp
qed

lemma envelope_json:
  "json_body r = Some doc \<Longrightarrow> envelope r = py_get doc ''subsonic-response'' (PDict [])"
  by (simp add: envelope_def)

lemma py_get_not_dict: "\<not> isinstance_dict v \<Longrightarrow> py_get v k d = Inl AttributeError"
  by (cases v) simp_all

lemma py_get_cases: "py_get v k d = Inl AttributeError \<or> (\<exists>x. py_get v k d = Inr x)"
  by (cases v) simp_all

lemma song_entry_not_dict: "\<not> isinstance_dict s \<Longrightarrow> song_entry s = Inl AttributeError"
  by (simp add: song_entry_def py_get_not_dict bind_err_def)

text \<open>The loop either meets an entry that tests true and is no object, and raises, or
  returns the summaries of the entries that test true.\<close>

lemma payload_loop_cases:
  "payload_loop items payload = Inl AttributeError
   \<or> (\<exists>ds. filter truthy items = map PDict ds
           \<and> payload_loop items payload = Inr (payload @ map song_summary ds))"
proof (induction items arbitrary: payload)
  case Nil
  then show ?case by simp
next
  case (Cons s items)
  show ?case
  proof (cases "truthy s")
    case False
    with Cons.IH [of payload] show ?thesis by simp
  next
    case True
    show ?thesis
    proof (cases "isinstance_dict s")
      case False
      with True show ?thesis by (simp add: song_entry_not_dict)
    next
      case dict: True
      then obtain kvs where s: "s = PDict kvs" by (cases s) simp_all
      from Cons.IH [of "payload @ [song_summary kvs]"]
      show ?thesis
      proof
        assume "payload_loop items (payload @ [song_summary kvs]) = Inl AttributeError"
        with True s show ?thesis by (simp add: song_entry_dict)
      next
        assume "\<exists>ds. filter truthy items = map PDict ds
           \<and> payload_loop items (payload @ [song_summary kvs])
               = Inr ((payload @ [song_summary kvs]) @ map song_summary ds)"
        then obtain ds where d: "filter truthy items = map PDict ds"
          "payload_loop items (payload @ [song_summary kvs])
               = Inr ((payload @ [song_summary kvs]) @ map song_summary ds)"
          by blast
        from True s d have "filter truthy (s # items) = map PDict (kvs # ds)"
          and "payload_loop (s # items) payload = Inr (payload @ map song_summary (kvs # ds))"
          by (simp_all add: song_entry_dict)
        then show ?thesis by blast
      qed
    qed
  qed
qed

lemma build_payload_cases:
  assumes "truthy songs \<or> songs = PList []"
  shows "build_payload songs = Inl AttributeError \<or> build_payload songs = Inl TypeError
       \<or> (\<exists>items ds. normalize songs = Some items \<and> filter truthy items = map PDict ds
              \<and> build_payload songs = Inr (map song_summary ds))"
proof (cases songs)
  case PNone
  with assms show ?thesis by simp
next
  case (PBool b)
  then show ?thesis by (simp add: build_payload_def bind_err_def)
next
  case (PInt n)
  then show ?thesis by (simp add: build_payload_def bind_err_def)
next
  case (PFloat x)
  then show ?thesis by (simp add: build_payload_def bind_err_def)
next
  case (PStr s)
  with assms obtain c cs where "s = c # cs" by (cases s) simp_all
  with PStr show ?thesis
    by (simp add: build_payload_def bind_err_def song_entry_not_dict)
next
  case (PList xs)
  then have b: "build_payload songs = payload_loop xs []"
    by (simp add: build_payload_def bind_err_def)
  from payload_loop_cases [of xs "[]"] PList show ?thesis
    unfolding b by auto
next
  case (PDict kvs)
  then have b: "build_payload songs = payload_loop [PDict kvs] []"
    by (simp add: build_payload_def bind_err_def del: payload_loop.simps)
  from payload_loop_cases [of "[PDict kvs]" "[]"] PDict show ?thesis
    unfolding b by auto
qed

lemma song_pipeline_cases:
  assumes "g = Inl AttributeError \<or> (\<exists>v. g = Inr v)"
  shows "bind_err g (\<lambda>v.
           bind_err (build_payload (py_or v (PList []))) (\<lambda>payload.
           Inr (jsonify [(''success'', PBool True), (key, PList payload)])))
         = Inl AttributeError
       \<or> bind_err g (\<lambda>v.
           bind_err (build_payload (py_or v (PList []))) (\<lambda>payload.
           Inr (jsonify [(''success'', PBool True), (key, PList payload)])))
         = Inl TypeError
       \<or> (\<exists>v items ds. g = Inr v
             \<and> normalize (py_or v (PList [])) = Some items
             \<and> filter truthy items = map PDict ds
             \<and> bind_err g (\<lambda>v.
                  bind_err (build_payload (py_or v (PList []))) (\<lambda>payload.
                  Inr (jsonify [(''success'', PBool True), (key, PList payload)])))
                = Inr \<lparr> status = 200,
                        resp_headers = [(''Content-Type'', ''application/json'')],
                        resp_body = JsonBody (PDict [(''success'', PBool True),
                                       (key, PList (map song_summary ds))]) \<rparr>)"
  using assms
proof
  assume "g = Inl AttributeError"
  then show ?thesis by (simp add: bind_err_def)
next
  assume "\<exists>v. g = Inr v"
  then obtain v where g: "g = Inr v" ..
  have "truthy (py_or v (PList [])) \<or> py_or v (PList []) = PList []"
    by (simp add: py_or_def)
  from build_payload_cases [OF this] g show ?thesis
    by (auto simp: bind_err_def jsonify_def)
qed

text \<open>
  Claim C3, as the code has it. In both query handlers, for every parsed envelope: either
  the handler ends in an uncaught \<^verbatim>\<open>AttributeError\<close> or \<^verbatim>\<open>TypeError\<close> (status 500), or the
  value under \<^verbatim>\<open>randomSongs\<close> or \<^verbatim>\<open>searchResult3\<close> is an object (absent, it counts as the
  empty object), the inner \<^verbatim>\<open>song\<close> field (absent or testing false, it counts as the empty
  list) is an object or a list, and every entry that tests true is an object. In that case a
  single object stands for the one-element list holding it (\<open>normalize\<close>), the entries
  that test false (\<^verbatim>\<open>null\<close>, \<^verbatim>\<open>{}\<close>) are dropped, and the answer is \<^verbatim>\<open>success: true\<close> with
  the list of the summaries \<^verbatim>\<open>{id, title, artist, coverArt}\<close> of the remaining objects
  \<open>ds\<close>, in order: \<^verbatim>\<open>title\<close> and \<^verbatim>\<open>artist\<close> are \<^verbatim>\<open>"Unknown"\<close> when absent, \<^verbatim>\<open>coverArt\<close> is
  the song's \<^verbatim>\<open>id\<close> when absent.
\<close>

theorem songs_normalized_and_projected:
  assumes "SUBSONIC_USER (cfg E) \<noteq> []" and "SUBSONIC_PASSWORD (cfg E) \<noteq> []"
  shows "(\<forall>r doc js rs v items ds.
            network E (last (sent (snd (api_random_list E req w)))) = Inr r \<longrightarrow>
            json_body r = Some doc \<longrightarrow>
            py_get doc ''subsonic-response'' (PDict []) = Inr js \<longrightarrow>
            py_get js ''randomSongs'' (PDict []) = Inr rs \<longrightarrow>
            py_get rs ''song'' (PList []) = Inr v \<longrightarrow>
            normalize (py_or v (PList [])) = Some items \<longrightarrow>
            filter truthy items = map PDict ds \<longrightarrow>
            fst (api_random_list E req w) =
              Inr \<lparr> status = 200,
                    resp_headers = [(''Content-Type'', ''application/json'')],
                    resp_body = JsonBody (PDict [(''success'', PBool True),
                                   (''songs'', PList (map song_summary ds))]) \<rparr>)
       \<and> (\<forall>qa n r doc js res0 v items ds.
            map_of (args req') ''query'' = Some qa \<longrightarrow> py_strip qa \<noteq> [] \<longrightarrow>
            (case map_of (args req') ''songCount'' of
               None \<Rightarrow> Some 25
             | Some a \<Rightarrow> py_int (int_max_str_digits E) a) = Some n \<longrightarrow>
            network E (last (sent (snd (api_search E req' w)))) = Inr r \<longrightarrow>
            json_body r = Some doc \<longrightarrow>
            py_get doc ''subsonic-response'' (PDict []) = Inr js \<longrightarrow>
            py_get js ''searchResult3'' (PDict []) = Inr res0 \<longrightarrow>
            py_get (py_or res0 (PDict [])) ''song'' (PList []) = Inr v \<longrightarrow>
            normalize (py_or v (PList [])) = Some items \<longrightarrow>
            filter truthy items = map PDict ds \<longrightarrow>
            fst (api_search E req' w) =
              Inr \<lparr> status = 200,
                    resp_headers = [(''Content-Type'', ''application/json'')],
                    resp_body = JsonBody (PDict [(''success'', PBool True),
                                   (''results'', PList (map song_summary ds))]) \<rparr>)
       \<and> (\<forall>r doc js.
            network E (last (sent (snd (api_random_list E req w)))) = Inr r \<longrightarrow>
            json_body r = Some doc \<longrightarrow>
            py_get doc ''subsonic-response'' (PDict []) = Inr js \<longrightarrow>
            (fst (api_random_list E req w) = Inl AttributeError
             \<or> fst (api_random_list E req w) = Inl TypeError
             \<or> (\<exists>rs v items ds.
                   py_get js ''randomSongs'' (PDict []) = Inr rs
                 \<and> py_get rs ''song'' (PList []) = Inr v
                 \<and> normalize (py_or v (PList [])) = Some items
                 \<and> filter truthy items = map PDict ds
                 \<and> fst (api_random_list E req w) =
                     Inr \<lparr> status = 200,
                           resp_headers = [(''Content-Type'', ''application/json'')],
                           resp_body = JsonBody (PDict [(''success'', PBool True),
                                          (''songs'', PList (map song_summary ds))]) \<rparr>)))
       \<and> (\<forall>qa n r doc js.
            map_of (args req') ''query'' = Some qa \<longrightarrow> py_strip qa \<noteq> [] \<longrightarrow>
            (case map_of (args req') ''songCount'' of
               None \<Rightarrow> Some 25
             | Some a \<Rightarrow> py_int (int_max_str_digits E) a) = Some n \<longrightarrow>
            network E (last (sent (snd (api_search E req' w)))) = Inr r \<longrightarrow>
            json_body r = Some doc \<longrightarrow>
            py_get doc ''subsonic-response'' (PDict []) = Inr js \<longrightarrow>
            (fst (api_search E req' w) = Inl AttributeError
             \<or> fst (api_search E req' w) = Inl TypeError
             \<or> (\<exists>res0 v items ds.
                   py_get js ''searchResult3'' (PDict []) = Inr res0
                 \<and> py_get (py_or res0 (PDict [])) ''song'' (PList []) = Inr v
                 \<and> normalize (py_or v (PList [])) = Some items
                 \<and> filter truthy items = map PDict ds
                 \<and> fst (api_search E req' w) =
                     Inr \<lparr> status = 200,
                           resp_headers = [(''Content-Type'', ''application/json'')],
                           resp_body = JsonBody (PDict [(''success'', PBool True),
                                          (''results'', PList (map song_summary ds))]) \<rparr>)))
       \<and> (\<forall>kvs. song_summary kvs =
              PDict [(''id'', case map_of kvs ''id'' of Some i \<Rightarrow> i | None \<Rightarrow> PNone),
                     (''title'', case map_of kvs ''title'' of
                                   Some t \<Rightarrow> t | None \<Rightarrow> PStr ''Unknown''),
                     (''artist'', case map_of kvs ''artist'' of
                                    Some a \<Rightarrow> a | None \<Rightarrow> PStr ''Unknown''),
                     (''coverArt'', case map_of kvs ''coverArt'' of
                                      None \<Rightarrow> (case map_of kvs ''id'' of
                                                 Some i \<Rightarrow> i | None \<Rightarrow> PNone)
                                    | Some c \<Rightarrow> if truthy c then c
                                               else (case map_of kvs ''id'' of
                                                       Some i \<Rightarrow> i | None \<Rightarrow> PNone))])"
proof (intro conjI allI impI)
  fix r doc js rs v items ds
  assume n: "network E (last (sent (snd (api_random_list E req w)))) = Inr r"
    and j: "json_body r = Some doc"
      "py_get doc ''subsonic-response'' (PDict []) = Inr js"
      "py_get js ''randomSongs'' (PDict []) = Inr rs"
      "py_get rs ''song'' (PList []) = Inr v"
    and s: "normalize (py_or v (PList [])) = Some items"
      "filter truthy items = map PDict ds"
  from n have n': "network E
             \<lparr> url = NAVIDROME_URL (cfg E) @ ''/rest/getRandomSongs'',
               params = [(''u'', PStr (SUBSONIC_USER (cfg E))),
                 (''t'', PStr (md5_hex (SUBSONIC_PASSWORD (cfg E) @ fst (token_hex 8 w)))),
                 (''s'', PStr (fst (token_hex 8 w))),
                 (''v'', PStr (SUBSONIC_VERSION (cfg E))),
                 (''c'', PStr (SUBSONIC_CLIENT (cfg E))),
                 (''f'', PStr ''json''),
                 (''size'', PInt (case map_of (args req) ''size'' of
                                   None \<Rightarrow> 30
                                 | Some a \<Rightarrow> (case py_int (int_max_str_digits E) a of
                                                Some n \<Rightarrow> n | None \<Rightarrow> 30)))],
               sent_headers = [],
               stream = False \<rparr> = Inr r"
    by (simp add: api_random_list_run [OF assms])
  have e: "envelope r = Inr js" using j(1,2) by (simp add: envelope_json)
  show "fst (api_random_list E req w) =
              Inr \<lparr> status = 200,
                    resp_headers = [(''Content-Type'', ''application/json'')],
                    resp_body = JsonBody (PDict [(''success'', PBool True),
                                   (''songs'', PList (map song_summary ds))]) \<rparr>"
    by (simp add: api_random_list_run [OF assms] n' e j(3,4) bind_err_def
          build_payload_summaries [OF s] jsonify_def)
next
  fix qa n r doc js res0 v items ds
  assume q: "map_of (args req') ''query'' = Some qa" "py_strip qa \<noteq> []"
      "(case map_of (args req') ''songCount'' of
               None \<Rightarrow> Some 25
             | Some a \<Rightarrow> py_int (int_max_str_digits E) a) = Some n"
    and n: "network E (last (sent (snd (api_search E req' w)))) = Inr r"
    and j: "json_body r = Some doc"
      "py_get doc ''subsonic-response'' (PDict []) = Inr js"
      "py_get js ''searchResult3'' (PDict []) = Inr res0"
      "py_get (py_or res0 (PDict [])) ''song'' (PList []) = Inr v"
    and s: "normalize (py_or v (PList [])) = Some items"
      "filter truthy items = map PDict ds"
  note run = api_search_run [OF assms q]
  from n have n': "network E
             \<lparr> url = NAVIDROME_URL (cfg E) @ ''/rest/search3'',
               params = [(''u'', PStr (SUBSONIC_USER (cfg E))),
                 (''t'', PStr (md5_hex (SUBSONIC_PASSWORD (cfg E) @ fst (token_hex 8 w)))),
                 (''s'', PStr (fst (token_hex 8 w))),
                 (''v'', PStr (SUBSONIC_VERSION (cfg E))),
                 (''c'', PStr (SUBSONIC_CLIENT (cfg E))),
                 (''f'', PStr ''json''),
                 (''query'', PStr (py_strip qa)),
                 (''songCount'', PInt n),
                 (''albumCount'', PInt 0),
                 (''artistCount'', PInt 0)],
               sent_headers = [],
               stream = False \<rparr> = Inr r"
    by (simp add: run)
  have e: "envelope r = Inr js" using j(1,2) by (simp add: envelope_json)
  show "fst (api_search E req' w) =
              Inr \<lparr> status = 200,
                    resp_headers = [(''Content-Type'', ''application/json'')],
                    resp_body = JsonBody (PDict [(''success'', PBool True),
                                   (''results'', PList (map song_summary ds))]) \<rparr>"
    by (simp add: run n' e j(3,4) bind_err_def build_payload_summaries [OF s] jsonify_def)
next
  fix r doc js
  assume n: "network E (last (sent (snd (api_random_list E req w)))) = Inr r"
    and j: "json_body r = Some doc"
      "py_get doc ''subsonic-response'' (PDict []) = Inr js"
  from n have n': "network E
             \<lparr> url = NAVIDROME_URL (cfg E) @ ''/rest/getRandomSongs'',
               params = [(''u'', PStr (SUBSONIC_USER (cfg E))),
                 (''t'', PStr (md5_hex (SUBSONIC_PASSWORD (cfg E) @ fst (token_hex 8 w)))),
                 (''s'', PStr (fst (token_hex 8 w))),
                 (''v'', PStr (SUBSONIC_VERSION (cfg E))),
                 (''c'', PStr (SUBSONIC_CLIENT (cfg E))),
                 (''f'', PStr ''json''),
                 (''size'', PInt (case map_of (args req) ''size'' of
                                   None \<Rightarrow> 30
                                 | Some a \<Rightarrow> (case py_int (int_max_str_digits E) a of
                                                Some n \<Rightarrow> n | None \<Rightarrow> 30)))],
               sent_headers = [],
               stream = False \<rparr> = Inr r"
    by (simp add: api_random_list_run [OF assms])
  have e: "envelope r = Inr js" using j by (simp add: envelope_json)
  have f: "fst (api_random_list E req w) =
             bind_err (py_get js ''randomSongs'' (PDict [])) (\<lambda>rs.
             bind_err (py_get rs ''song'' (PList [])) (\<lambda>v.
             bind_err (build_payload (py_or v (PList []))) (\<lambda>payload.
             Inr (jsonify [(''success'', PBool True), (''songs'', PList payload)]))))"
    by (simp add: api_random_list_run [OF assms] n' e)
  from py_get_cases [of js "''randomSongs''" "PDict []"]
  show "fst (api_random_list E req w) = Inl AttributeError
             \<or> fst (api_random_list E req w) = Inl TypeError
             \<or> (\<exists>rs v items ds.
                   py_get js ''randomSongs'' (PDict []) = Inr rs
                 \<and> py_get rs ''song'' (PList []) = Inr v
                 \<and> normalize (py_or v (PList [])) = Some items
                 \<and> filter truthy items = map PDict ds
                 \<and> fst (api_random_list E req w) =
                     Inr \<lparr> status = 200,
                           resp_headers = [(''Content-Type'', ''application/json'')],
                           resp_body = JsonBody (PDict [(''success'', PBool True),
                                          (''songs'', PList (map song_summary ds))]) \<rparr>)"
  proof
    assume "py_get js ''randomSongs'' (PDict []) = Inl AttributeError"
    then show ?thesis by (simp add: f bind_err_def)
  next
    assume "\<exists>x. py_get js ''randomSongs'' (PDict []) = Inr x"
    then obtain rs where rs: "py_get js ''randomSongs'' (PDict []) = Inr rs" ..
    then have f': "fst (api_random_list E req w) =
             bind_err (py_get rs ''song'' (PList [])) (\<lambda>v.
             bind_err (build_payload (py_or v (PList []))) (\<lambda>payload.
             Inr (jsonify [(''success'', PBool True), (''songs'', PList payload)])))"
      by (simp add: f bind_err_def)
    from song_pipeline_cases [OF py_get_cases [of rs "''song''" "PList []"], of "''songs''"] rs
    show ?thesis unfolding f' by blast
  qed
next
  fix qa n r doc js
  assume q: "map_of (args req') ''query'' = Some qa" "py_strip qa \<noteq> []"
      "(case map_of (args req') ''songCount'' of
               None \<Rightarrow> Some 25
             | Some a \<Rightarrow> py_int (int_max_str_digits E) a) = Some n"
    and n: "network E (last (sent (snd (api_search E req' w)))) = Inr r"
    and j: "json_body r = Some doc"
      "py_get doc ''subsonic-response'' (PDict []) = Inr js"
  note run = api_search_run [OF assms q]
  from n have n': "network E
             \<lparr> url = NAVIDROME_URL (cfg E) @ ''/rest/search3'',
               params = [(''u'', PStr (SUBSONIC_USER (cfg E))),
                 (''t'', PStr (md5_hex (SUBSONIC_PASSWORD (cfg E) @ fst (token_hex 8 w)))),
                 (''s'', PStr (fst (token_hex 8 w))),
                 (''v'', PStr (SUBSONIC_VERSION (cfg E))),
                 (''c'', PStr (SUBSONIC_CLIENT (cfg E))),
                 (''f'', PStr ''json''),
                 (''query'', PStr (py_strip qa)),
                 (''songCount'', PInt n),
                 (''albumCount'', PInt 0),
                 (''artistCount'', PInt 0)],
               sent_headers = [],
               stream = False \<rparr> = Inr r"
    by (simp add: run)
  have e: "envelope r = Inr js" using j by (simp add: envelope_json)
  have f: "fst (api_search E req' w) =
             bind_err (py_get js ''searchResult3'' (PDict [])) (\<lambda>res0.
             bind_err (py_get (py_or res0 (PDict [])) ''song'' (PList [])) (\<lambda>v.
             bind_err (build_payload (py_or v (PList []))) (\<lambda>results.
             Inr (jsonify [(''success'', PBool True), (''results'', PList results)]))))"
    by (simp add: run n' e)
  from py_get_cases [of js "''searchResult3''" "PDict []"]
  show "fst (api_search E req' w) = Inl AttributeError
             \<or> fst (api_search E req' w) = Inl TypeError
             \<or> (\<exists>res0 v items ds.
                   py_get js ''searchResult3'' (PDict []) = Inr res0
                 \<and> py_get (py_or res0 (PDict [])) ''song'' (PList []) = Inr v
                 \<and> normalize (py_or v (PList [])) = Some items
                 \<and> filter truthy items = map PDict ds
                 \<and> fst (api_search E req' w) =
                     Inr \<lparr> status = 200,
                           resp_headers = [(''Content-Type'', ''application/json'')],
                           resp_body = JsonBody (PDict [(''success'', PBool True),
                                          (''results'', PList (map song_summary ds))]) \<rparr>)"
  proof
    assume "py_get js ''searchResult3'' (PDict []) = Inl AttributeError"
    then show ?thesis by (simp add: f bind_err_def)
  next
    assume "\<exists>x. py_get js ''searchResult3'' (PDict []) = Inr x"
    then obtain res0 where rs: "py_get js ''searchResult3'' (PDict []) = Inr res0" ..
    then have f': "fst (api_search E req' w) =
             bind_err (py_get (py_or res0 (PDict [])) ''song'' (PList [])) (\<lambda>v.
             bind_err (build_payload (py_or v (PList []))) (\<lambda>payload.
             Inr (jsonify [(''success'', PBool True), (''results'', PList payload)])))"
      by (simp add: f bind_err_def)
    from song_pipeline_cases
           [OF py_get_cases [of "py_or res0 (PDict [])" "''song''" "PList []"], of "''results''"] rs
    show ?thesis unfolding f' by blast
  qed
next
  fix kvs
  show "song_summary kvs =
              PDict [(''id'', case map_of kvs ''id'' of Some i \<Rightarrow> i | None \<Rightarrow> PNone),
                     (''title'', case map_of kvs ''title'' of
                                   Some t \<Rightarrow> t | None \<Rightarrow> PStr ''Unknown''),
                     (''artist'', case map_of kvs ''artist'' of
                                    Some a \<Rightarrow> a | None \<Rightarrow> PStr ''Unknown''),
                     (''coverArt'', case map_of kvs ''coverArt'' of
                                      None \<Rightarrow> (case map_of kvs ''id'' of
                                                 Some i \<Rightarrow> i | None \<Rightarrow> PNone)
                                    | Some c \<Rightarrow> if truthy c then c
                                               else (case map_of kvs ''id'' of
                                                       Some i \<Rightarrow> i | None \<Rightarrow> PNone))]"
    by (simp add: song_summary_def Let_def)
qed

theorem songs_normalized_and_projected_witness:
  "SUBSONIC_USER (cfg example_env) \<noteq> [] \<and> SUBSONIC_PASSWORD (cfg example_env) \<noteq> []
   \<and> network example_env
        (last (sent (snd (api_random_list example_env \<lparr>args = [], req_headers = []\<rparr>
                            example_world)))) = Inr random_reply
   \<and> fst (api_random_list example_env \<lparr>args = [], req_headers = []\<rparr> example_world) =
       Inr \<lparr> status = 200,
             resp_headers = [(''Content-Type'', ''application/json'')],
             resp_body = JsonBody (PDict [(''success'', PBool True),
               (''songs'', PList
                  [PDict [(''id'', PStr ''s1''), (''title'', PStr ''Blue''),
                          (''artist'', PStr ''Joni''), (''coverArt'', PStr ''al-1'')],
                   PDict [(''id'', PStr ''s2''), (''title'', PStr ''Unknown''),
                          (''artist'', PStr ''Unknown''), (''coverArt'', PStr ''s2'')]])]) \<rparr>
   \<and> map_of (args \<lparr>args = [(''query'', '' hejira '')], req_headers = []\<rparr>) ''query''
       = Some '' hejira ''
   \<and> py_strip '' hejira '' \<noteq> []
   \<and> network example_env
        (last (sent (snd (api_search example_env
                            \<lparr>args = [(''query'', '' hejira '')], req_headers = []\<rparr>
                            example_world)))) = Inr search_reply
   \<and> fst (api_search example_env \<lparr>args = [(''query'', '' hejira '')], req_headers = []\<rparr>
            example_world) =
       Inr \<lparr> status = 200,
             resp_headers = [(''Content-Type'', ''application/json'')],
             resp_body = JsonBody (PDict [(''success'', PBool True),
               (''results'', PList
                  [PDict [(''id'', PStr ''s7''), (''title'', PStr ''Hejira''),
                          (''artist'', PStr ''Unknown''), (''coverArt'', PStr ''s7'')]])]) \<rparr>
   \<and> network odd_env
        (last (sent (snd (api_random_list odd_env \<lparr>args = [], req_headers = []\<rparr>
                            example_world)))) = Inr odd_reply
   \<and> (fst (api_random_list odd_env \<lparr>args = [], req_headers = []\<rparr> example_world)
         = Inl AttributeError
      \<or> fst (api_random_list odd_env \<lparr>args = [], req_headers = []\<rparr> example_world)
         = Inl TypeError)"
proof -
  let ?r0 = "\<lparr>args = [], req_headers = [] :: (string \<times> string) list\<rparr>"
  let ?r1 = "\<lparr>args = [(''query'', '' hejira '')], req_headers = []\<rparr>"
  let ?a = "[(''id'', PStr ''s1''), (''title'', PStr ''Blue''),
             (''artist'', PStr ''Joni''), (''coverArt'', PStr ''al-1'')]"
  let ?b = "[(''id'', PStr ''s2'')]"
  let ?items = "[PDict ?a, PNone, PDict [], PDict ?b]"
  let ?rs = "PDict [(''song'', PList ?items)]"
  let ?js = "PDict [(''status'', PStr ''ok''), (''randomSongs'', ?rs)]"
  let ?doc = "PDict [(''subsonic-response'', ?js)]"
  let ?c = "[(''id'', PStr ''s7''), (''title'', PStr ''Hejira''), (''coverArt'', PStr '''')]"
  let ?res = "PDict [(''song'', PDict ?c)]"
  let ?js' = "PDict [(''status'', PStr ''ok''), (''searchResult3'', ?res)]"
  let ?doc' = "PDict [(''subsonic-response'', ?js')]"
  have u: "SUBSONIC_USER (cfg example_env) \<noteq> []" by (simp add: example_cfg)
  have p: "SUBSONIC_PASSWORD (cfg example_env) \<noteq> []" by (simp add: example_cfg)
  note t = songs_normalized_and_projected [OF u p, of ?r0 example_world ?r1]
  have n: "network example_env (last (sent (snd (api_random_list example_env ?r0 example_world))))
             = Inr random_reply"
    by (simp add: api_random_list_run [OF u p] example_cfg)
       (simp add: example_env_def example_network_def)
  have j: "json_body random_reply = Some ?doc"
    "py_get ?doc ''subsonic-response'' (PDict []) = Inr ?js"
    "py_get ?js ''randomSongs'' (PDict []) = Inr ?rs"
    "py_get ?rs ''song'' (PList []) = Inr (PList ?items)"
    by (simp_all add: random_reply_def)
  have s: "normalize (py_or (PList ?items) (PList [])) = Some ?items"
    "filter truthy ?items = map PDict [?a, ?b]"
    by (simp_all add: py_or_def)
  from t [THEN conjunct1, rule_format, OF n j s]
  have A: "fst (api_random_list example_env ?r0 example_world) =
       Inr \<lparr> status = 200,
             resp_headers = [(''Content-Type'', ''application/json'')],
             resp_body = JsonBody (PDict [(''success'', PBool True),
               (''songs'', PList
                  [PDict [(''id'', PStr ''s1''), (''title'', PStr ''Blue''),
                          (''artist'', PStr ''Joni''), (''coverArt'', PStr ''al-1'')],
                   PDict [(''id'', PStr ''s2''), (''title'', PStr ''Unknown''),
                          (''artist'', PStr ''Unknown''), (''coverArt'', PStr ''s2'')]])]) \<rparr>"
    by (simp add: song_summary_def Let_def)
  have q: "map_of (args ?r1) ''query'' = Some '' hejira ''" by simp
  have st: "py_strip '' hejira '' \<noteq> []" by (simp add: py_strip_def py_isspace_def)
  have c: "(case map_of (args ?r1) ''songCount'' of
               None \<Rightarrow> Some 25
             | Some a \<Rightarrow> py_int (int_max_str_digits example_env) a) = Some 25"
    by simp
  have n': "network example_env (last (sent (snd (api_search example_env ?r1 example_world))))
             = Inr search_reply"
    by (simp add: api_search_run [OF u p q st c] example_cfg)
       (simp add: example_env_def example_network_def)
  have j': "json_body search_reply = Some ?doc'"
    "py_get ?doc' ''subsonic-response'' (PDict []) = Inr ?js'"
    "py_get ?js' ''searchResult3'' (PDict []) = Inr ?res"
    "py_get (py_or ?res (PDict [])) ''song'' (PList []) = Inr (PDict ?c)"
    by (simp_all add: search_reply_def py_or_def)
  have s': "normalize (py_or (PDict ?c) (PList [])) = Some [PDict ?c]"
    "filter truthy [PDict ?c] = map PDict [?c]"
    by (simp_all add: py_or_def)
  from t [THEN conjunct2, THEN conjunct1, rule_format, OF q st c n' j' s']
  have B: "fst (api_search example_env ?r1 example_world) =
       Inr \<lparr> status = 200,
             resp_headers = [(''Content-Type'', ''application/json'')],
             resp_body = JsonBody (PDict [(''success'', PBool True),
               (''results'', PList
                  [PDict [(''id'', PStr ''s7''), (''title'', PStr ''Hejira''),
                          (''artist'', PStr ''Unknown''), (''coverArt'', PStr ''s7'')]])]) \<rparr>"
    by (simp add: song_summary_def Let_def)
  let ?od = "[PDict [(''id'', PStr ''s1'')], PStr ''s2'']"
  let ?ojs = "PDict [(''status'', PStr ''ok''), (''randomSongs'', PDict [(''song'', PList ?od)])]"
  let ?odoc = "PDict [(''subsonic-response'', ?ojs)]"
  have ou: "SUBSONIC_USER (cfg odd_env) \<noteq> []" by (simp add: odd_env_def example_cfg)
  have op: "SUBSONIC_PASSWORD (cfg odd_env) \<noteq> []" by (simp add: odd_env_def example_cfg)
  have on: "network odd_env (last (sent (snd (api_random_list odd_env ?r0 example_world))))
             = Inr odd_reply"
    by (simp add: odd_env_def)
  have oj: "json_body odd_reply = Some ?odoc"
    "py_get ?odoc ''subsonic-response'' (PDict []) = Inr ?ojs"
    by (simp_all add: odd_reply_def)
  note t' = songs_normalized_and_projected [OF ou op, of ?r0 example_world ?r1]
  have "\<not> (\<exists>rs v items ds.
                   py_get ?ojs ''randomSongs'' (PDict []) = Inr rs
                 \<and> py_get rs ''song'' (PList []) = Inr v
                 \<and> normalize (py_or v (PList [])) = Some items
                 \<and> filter truthy items = map PDict ds
                 \<and> fst (api_random_list odd_env ?r0 example_world) =
                     Inr \<lparr> status = 200,
                           resp_headers = [(''Content-Type'', ''application/json'')],
                           resp_body = JsonBody (PDict [(''success'', PBool True),
                                          (''songs'', PList (map song_summary ds))]) \<rparr>)"
    by (auto simp: py_or_def map_eq_Cons_conv)
  with t' [THEN conjunct2, THEN conjunct2, THEN conjunct1, rule_format, OF on oj]
  have C: "fst (api_random_list odd_env ?r0 example_world) = Inl AttributeError
      \<or> fst (api_random_list odd_env ?r0 example_world) = Inl TypeError"
    by blast
  from u p n A q st n' B on C show ?thesis by blast
qed

text \<open>
  Claim C3 as stated fails on a parsed envelope whose song list holds, after a song object,
  a bare identifier: the entry tests true, so it is not dropped, and it has no
  \<^verbatim>\<open>get\<close>, so it is not projected; the handler ends in an uncaught \<^verbatim>\<open>AttributeError\<close>
  (status 500).
\<close>

theorem song_entry_counterexample:
  "network odd_env
     (last (sent (snd (api_random_list odd_env \<lparr>args = [], req_headers = []\<rparr>
                         example_world)))) = Inr odd_reply
   \<and> envelope odd_reply =
       Inr (PDict [(''status'', PStr ''ok''),
                   (''randomSongs'',
                    PDict [(''song'', PList [PDict [(''id'', PStr ''s1'')], PStr ''s2''])])])
   \<and> fst (api_random_list odd_env \<lparr>args = [], req_headers = []\<rparr> example_world)
       = Inl AttributeError
   \<and> http_status (fst (api_random_list odd_env \<lparr>args = [], req_headers = []\<rparr>
                          example_world)) = 500"
proof -
  let ?r0 = "\<lparr>args = [], req_headers = [] :: (string \<times> string) list\<rparr>"
  have u: "SUBSONIC_USER (cfg odd_env) \<noteq> []" by (simp add: odd_env_def example_cfg)
  have p: "SUBSONIC_PASSWORD (cfg odd_env) \<noteq> []" by (simp add: odd_env_def example_cfg)
  have n: "\<And>rq. network odd_env rq = Inr odd_reply" by (simp add: odd_env_def)
  have e: "envelope odd_reply =
       Inr (PDict [(''status'', PStr ''ok''),
                   (''randomSongs'',
                    PDict [(''song'', PList [PDict [(''id'', PStr ''s1'')], PStr ''s2''])])])"
    by (simp add: envelope_def odd_reply_def)
  have b: "build_payload (PList [PDict [(''id'', PStr ''s1'')], PStr ''s2'']) = Inl AttributeError"
    by (simp add: build_payload_def bind_err_def song_entry_dict song_entry_not_dict)
  have r: "fst (api_random_list odd_env ?r0 example_world) = Inl AttributeError"
    by (simp add: api_random_list_run [OF u p] n e bind_err_def py_or_def b)
  from n e r show ?thesis by simp
qed

section \<open>The query handlers: upstream answers that are no envelope\<close>

lemma envelope_unparseable:
  assumes "json_body r = None \<or> (\<exists>v. json_body r = Some v \<and> \<not> isinstance_dict v)"
  shows "\<exists>e. envelope r = Inl e"
  using assms by (auto simp: envelope_def py_get_not_dict)

lemma envelope_missing:
  assumes "json_body r = Some (PDict kvs)" and "map_of kvs ''subsonic-response'' = None"
  shows "envelope r = Inr (PDict [])"
  using assms by (simp add: envelope_def)

lemma build_payload_empty: "build_payload (PList []) = Inr []"
  by (simp add: build_payload_def bind_err_def)

lemma html_cfg: "cfg html_env = cfg example_env"
  by (simp add: html_env_def)

lemma failing_cfg: "cfg failing_env = cfg example_env"
  by (simp add: failing_env_def)

text \<open>
  Claim C1, as the code has it. With the credentials configured (and, for the search, a
  query and a \<^verbatim>\<open>songCount\<close> that pass), when upstream answers and \<^verbatim>\<open>r.json()\<close> raises or
  gives a value that is not an object, both query handlers return status 502 with the body
  \<^verbatim>\<open>{success: false, error: "Upstream invalid JSON"}\<close>. When it gives an object without the
  key \<^verbatim>\<open>subsonic-response\<close>, they return status 200 with \<^verbatim>\<open>success: true\<close> and the empty
  list: the envelope defaults to the empty object.
\<close>

theorem upstream_invalid_json_502:
  assumes "SUBSONIC_USER (cfg E) \<noteq> []" and "SUBSONIC_PASSWORD (cfg E) \<noteq> []"
  shows "(\<forall>r. network E (last (sent (snd (api_random_list E req w)))) = Inr r \<longrightarrow>
            (json_body r = None \<or> (\<exists>v. json_body r = Some v \<and> \<not> isinstance_dict v)) \<longrightarrow>
            fst (api_random_list E req w) =
              Inr \<lparr> status = 502,
                    resp_headers = [(''Content-Type'', ''application/json'')],
                    resp_body = JsonBody (PDict [(''success'', PBool False),
                                   (''error'', PStr ''Upstream invalid JSON'')]) \<rparr>)
       \<and> (\<forall>qa n r.
            map_of (args req') ''query'' = Some qa \<longrightarrow> py_strip qa \<noteq> [] \<longrightarrow>
            (case map_of (args req') ''songCount'' of
               None \<Rightarrow> Some 25
             | Some a \<Rightarrow> py_int (int_max_str_digits E) a) = Some n \<longrightarrow>
            network E (last (sent (snd (api_search E req' w)))) = Inr r \<longrightarrow>
            (json_body r = None \<or> (\<exists>v. json_body r = Some v \<and> \<not> isinstance_dict v)) \<longrightarrow>
            fst (api_search E req' w) =
              Inr \<lparr> status = 502,
                    resp_headers = [(''Content-Type'', ''application/json'')],
                    resp_body = JsonBody (PDict [(''success'', PBool False),
                                   (''error'', PStr ''Upstream invalid JSON'')]) \<rparr>)
       \<and> (\<forall>r kvs. network E (last (sent (snd (api_random_list E req w)))) = Inr r \<longrightarrow>
            json_body r = Some (PDict kvs) \<longrightarrow> map_of kvs ''subsonic-response'' = None \<longrightarrow>
            fst (api_random_list E req w) =
              Inr \<lparr> status = 200,
                    resp_headers = [(''Content-Type'', ''application/json'')],
                    resp_body = JsonBody (PDict [(''success'', PBool True),
                                   (''songs'', PList [])]) \<rparr>)
       \<and> (\<forall>qa n r kvs.
            map_of (args req') ''query'' = Some qa \<longrightarrow> py_strip qa \<noteq> [] \<longrightarrow>
            (case map_of (args req') ''songCount'' of
               None \<Rightarrow> Some 25
             | Some a \<Rightarrow> py_int (int_max_str_digits E) a) = Some n \<longrightarrow>
            network E (last (sent (snd (api_search E req' w)))) = Inr r \<longrightarrow>
            json_body r = Some (PDict kvs) \<longrightarrow> map_of kvs ''subsonic-response'' = None \<longrightarrow>
            fst (api_search E req' w) =
              Inr \<lparr> status = 200,
                    resp_headers = [(''Content-Type'', ''application/json'')],
                    resp_body = JsonBody (PDict [(''success'', PBool True),
                                   (''results'', PList [])]) \<rparr>)"
proof (intro conjI allI impI)
  fix r
  assume n: "network E (last (sent (snd (api_random_list E req w)))) = Inr r"
    and b: "json_body r = None \<or> (\<exists>v. json_body r = Some v \<and> \<not> isinstance_dict v)"
  from envelope_unparseable [OF b] obtain e where e: "envelope r = Inl e" ..
  from n e show "fst (api_random_list E req w) =
              Inr \<lparr> status = 502,
                    resp_headers = [(''Content-Type'', ''application/json'')],
                    resp_body = JsonBody (PDict [(''success'', PBool False),
                                   (''error'', PStr ''Upstream invalid JSON'')]) \<rparr>"
    by (simp add: api_random_list_run [OF assms] jsonify_def with_status_def)
next
  fix qa n r
  assume q: "map_of (args req') ''query'' = Some qa" "py_strip qa \<noteq> []"
      "(case map_of (args req') ''songCount'' of
               None \<Rightarrow> Some 25
             | Some a \<Rightarrow> py_int (int_max_str_digits E) a) = Some n"
    and n: "network E (last (sent (snd (api_search E req' w)))) = Inr r"
    and b: "json_body r = None \<or> (\<exists>v. json_body r = Some v \<and> \<not> isinstance_dict v)"
  from envelope_unparseable [OF b] obtain e where e: "envelope r = Inl e" ..
  with n show "fst (api_search E req' w) =
              Inr \<lparr> status = 502,
                    resp_headers = [(''Content-Type'', ''application/json'')],
                    resp_body = JsonBody (PDict [(''success'', PBool False),
                                   (''error'', PStr ''Upstream invalid JSON'')]) \<rparr>"
    by (simp add: api_search_run [OF assms q] jsonify_def with_status_def)
next
  fix r kvs
  assume n: "network E (last (sent (snd (api_random_list E req w)))) = Inr r"
    and j: "json_body r = Some (PDict kvs)" "map_of kvs ''subsonic-response'' = None"
  from n envelope_missing [OF j]
  show "fst (api_random_list E req w) =
              Inr \<lparr> status = 200,
                    resp_headers = [(''Content-Type'', ''application/json'')],
                    resp_body = JsonBody (PDict [(''success'', PBool True),
                                   (''songs'', PList [])]) \<rparr>"
    by (simp add: api_random_list_run [OF assms] jsonify_def bind_err_def py_or_def
          build_payload_empty)
next
  fix qa n r kvs
  assume q: "map_of (args req') ''query'' = Some qa" "py_strip qa \<noteq> []"
      "(case map_of (args req') ''songCount'' of
               None \<Rightarrow> Some 25
             | Some a \<Rightarrow> py_int (int_max_str_digits E) a) = Some n"
    and n: "network E (last (sent (snd (api_search E req' w)))) = Inr r"
    and j: "json_body r = Some (PDict kvs)" "map_of kvs ''subsonic-response'' = None"
  from n envelope_missing [OF j]
  show "fst (api_search E req' w) =
              Inr \<lparr> status = 200,
                    resp_headers = [(''Content-Type'', ''application/json'')],
                    resp_body = JsonBody (PDict [(''success'', PBool True),
                                   (''results'', PList [])]) \<rparr>"
    by (simp add: api_search_run [OF assms q] jsonify_def bind_err_def py_or_def
          build_payload_empty)
qed

theorem upstream_invalid_json_502_witness:
  "SUBSONIC_USER (cfg html_env) \<noteq> [] \<and> SUBSONIC_PASSWORD (cfg html_env) \<noteq> []
   \<and> network html_env
        (last (sent (snd (api_random_list html_env \<lparr>args = [], req_headers = []\<rparr>
                            example_world)))) = Inr html_reply
   \<and> json_body html_reply = None
   \<and> http_status (fst (api_random_list html_env \<lparr>args = [], req_headers = []\<rparr>
                          example_world)) = 502
   \<and> map_of (args \<lparr>args = [(''query'', ''blue''), (''songCount'', ''3'')], req_headers = []\<rparr>)
        ''query'' = Some ''blue''
   \<and> py_strip ''blue'' \<noteq> []
   \<and> py_int (int_max_str_digits html_env) ''3'' = Some 3
   \<and> fst (api_search html_env
            \<lparr>args = [(''query'', ''blue''), (''songCount'', ''3'')], req_headers = []\<rparr>
            example_world) =
       Inr \<lparr> status = 502,
             resp_headers = [(''Content-Type'', ''application/json'')],
             resp_body = JsonBody (PDict [(''success'', PBool False),
                            (''error'', PStr ''Upstream invalid JSON'')]) \<rparr>
   \<and> map_of [(''error'', PStr ''database is locked'')] ''subsonic-response'' = None
   \<and> http_status (fst (api_random_list failing_env \<lparr>args = [], req_headers = []\<rparr>
                          example_world)) = 200
   \<and> http_status (fst (api_search failing_env
            \<lparr>args = [(''query'', ''blue''), (''songCount'', ''3'')], req_headers = []\<rparr>
            example_world)) = 200"
proof -
  let ?r0 = "\<lparr>args = [], req_headers = [] :: (string \<times> string) list\<rparr>"
  let ?r1 = "\<lparr>args = [(''query'', ''blue''), (''songCount'', ''3'')], req_headers = []\<rparr>"
  have u: "SUBSONIC_USER (cfg html_env) \<noteq> []" by (simp add: html_cfg example_cfg)
  have p: "SUBSONIC_PASSWORD (cfg html_env) \<noteq> []" by (simp add: html_cfg example_cfg)
  have u': "SUBSONIC_USER (cfg failing_env) \<noteq> []" by (simp add: failing_cfg example_cfg)
  have p': "SUBSONIC_PASSWORD (cfg failing_env) \<noteq> []" by (simp add: failing_cfg example_cfg)
  have n: "\<And>rq. network html_env rq = Inr html_reply" by (simp add: html_env_def)
  have n': "\<And>rq. network failing_env rq = Inr failed_reply" by (simp add: failing_env_def)
  have j: "json_body html_reply = None" by (simp add: html_reply_def)
  then have b: "json_body html_reply = None
              \<or> (\<exists>v. json_body html_reply = Some v \<and> \<not> isinstance_dict v)" ..
  have j': "json_body failed_reply = Some (PDict [(''error'', PStr ''database is locked'')])"
    by (simp add: failed_reply_def)
  have m: "map_of [(''error'', PStr ''database is locked'')] ''subsonic-response'' = None"
    by simp
  have q: "map_of (args ?r1) ''query'' = Some ''blue''" by simp
  have s: "py_strip ''blue'' \<noteq> []" by (simp add: py_strip_def py_isspace_def)
  have i: "py_int (int_max_str_digits html_env) ''3'' = Some 3"
    by (simp add: html_env_def example_env_def int_eval)
  have i': "py_int (int_max_str_digits failing_env) ''3'' = Some 3"
    by (simp add: failing_env_def example_env_def int_eval)
  have c: "(case map_of (args ?r1) ''songCount'' of
               None \<Rightarrow> Some 25
             | Some a \<Rightarrow> py_int (int_max_str_digits html_env) a) = Some 3"
    using i by simp
  have c': "(case map_of (args ?r1) ''songCount'' of
               None \<Rightarrow> Some 25
             | Some a \<Rightarrow> py_int (int_max_str_digits failing_env) a) = Some 3"
    using i' by simp
  note t = upstream_invalid_json_502 [OF u p, of ?r0 example_world ?r1]
  note t' = upstream_invalid_json_502 [OF u' p', of ?r0 example_world ?r1]
  from t [THEN conjunct1, rule_format, OF n b]
  have A: "http_status (fst (api_random_list html_env ?r0 example_world)) = 502"
    by simp
  from t [THEN conjunct2, THEN conjunct1, rule_format, OF q s c n b]
  have B: "fst (api_search html_env ?r1 example_world) =
       Inr \<lparr> status = 502,
             resp_headers = [(''Content-Type'', ''application/json'')],
             resp_body = JsonBody (PDict [(''success'', PBool False),
                            (''error'', PStr ''Upstream invalid JSON'')]) \<rparr>" .
  from t' [THEN conjunct2, THEN conjunct2, THEN conjunct1, rule_format, OF n' j' m]
  have C: "http_status (fst (api_random_list failing_env ?r0 example_world)) = 200"
    by simp
  from t' [THEN conjunct2, THEN conjunct2, THEN conjunct2, rule_format, OF q s c' n' j' m]
  have D: "http_status (fst (api_search failing_env ?r1 example_world)) = 200"
    by simp
  from u p n j A q s i B m C D show ?thesis by blast
qed

text \<open>
  Claim C1 as stated fails on an upstream that answers the random-songs and the search call
  with status 500 and a JSON object that is no envelope (it has no key
  \<^verbatim>\<open>subsonic-response\<close>): both handlers answer with status 200 and \<^verbatim>\<open>success: true\<close> over an
  empty list, neither with 502 nor with any other sign of the failure.
\<close>

theorem upstream_failure_counterexample:
  "network failing_env
     (last (sent (snd (api_random_list failing_env \<lparr>args = [], req_headers = []\<rparr>
                         example_world)))) = Inr failed_reply
   \<and> network failing_env
       (last (sent (snd (api_search failing_env
                           \<lparr>args = [(''query'', ''blue'')], req_headers = []\<rparr>
                           example_world)))) = Inr failed_reply
   \<and> status_code failed_reply = 500
   \<and> json_body failed_reply = Some (PDict [(''error'', PStr ''database is locked'')])
   \<and> fst (api_random_list failing_env \<lparr>args = [], req_headers = []\<rparr> example_world) =
       Inr \<lparr> status = 200,
             resp_headers = [(''Content-Type'', ''application/json'')],
             resp_body = JsonBody (PDict [(''success'', PBool True), (''songs'', PList [])]) \<rparr>
   \<and> fst (api_search failing_env \<lparr>args = [(''query'', ''blue'')], req_headers = []\<rparr>
            example_world) =
       Inr \<lparr> status = 200,
             resp_headers = [(''Content-Type'', ''application/json'')],
             resp_body = JsonBody (PDict [(''success'', PBool True), (''results'', PList [])]) \<rparr>"
proof -
  let ?r0 = "\<lparr>args = [], req_headers = [] :: (string \<times> string) list\<rparr>"
  let ?r1 = "\<lparr>args = [(''query'', ''blue'')], req_headers = []\<rparr>"
  have u: "SUBSONIC_USER (cfg failing_env) \<noteq> []" by (simp add: failing_cfg example_cfg)
  have p: "SUBSONIC_PASSWORD (cfg failing_env) \<noteq> []" by (simp add: failing_cfg example_cfg)
  have n: "\<And>rq. network failing_env rq = Inr failed_reply" by (simp add: failing_env_def)
  have f: "status_code failed_reply = 500"
    "json_body failed_reply = Some (PDict [(''error'', PStr ''database is locked'')])"
    by (simp_all add: failed_reply_def)
  have e: "envelope failed_reply = Inr (PDict [])"
    by (simp add: envelope_def failed_reply_def)
  have q: "map_of (args ?r1) ''query'' = Some ''blue''" by simp
  have s: "py_strip ''blue'' \<noteq> []" by (simp add: py_strip_def py_isspace_def)
  have c: "(case map_of (args ?r1) ''songCount'' of
               None \<Rightarrow> Some 25
             | Some a \<Rightarrow> py_int (int_max_str_digits failing_env) a) = Some 25"
    by simp
  have A: "fst (api_random_list failing_env ?r0 example_world) =
       Inr \<lparr> status = 200,
             resp_headers = [(''Content-Type'', ''application/json'')],
             resp_body = JsonBody (PDict [(''success'', PBool True), (''songs'', PList [])]) \<rparr>"
    by (simp add: api_random_list_run [OF u p] n e jsonify_def bind_err_def py_or_def
          build_payload_empty)
  have B: "fst (api_search failing_env ?r1 example_world) =
       Inr \<lparr> status = 200,
             resp_headers = [(''Content-Type'', ''application/json'')],
             resp_body = JsonBody (PDict [(''success'', PBool True), (''results'', PList [])]) \<rparr>"
    by (simp add: api_search_run [OF u p q s c] n e jsonify_def bind_err_def py_or_def
          build_payload_empty)
  from n f A B show ?thesis by simp
qed

end
